theory Spec2Isabelle
  imports Complex_Main
begin

section \<open>JavaScript values used by the route handlers\<close>

text \<open>
  The handlers receive path and query parameters as strings and the request body as a
  parsed JSON object. A member that is absent from an object is \<open>undefined\<close>, modelled
  by \<open>None\<close>. Strings are lists of ASCII characters. Numbers are modelled exactly, as
  rationals, together with the two infinities and \<open>NaN\<close>; the rounding of binary64 is not
  modelled.
\<close>

datatype jsnum = NaN | Num rat | PosInf | NegInf

datatype json =
    JNull
  | JBool bool
  | JNum rat
  | JStr string
  | JArr "json list"
  | JObj "(string \<times> json) list"

type_synonym jsobject = "string \<rightharpoonup> json"

text \<open>\<open>Number.isNaN\<close>.\<close>

fun isNaN :: "jsnum \<Rightarrow> bool" where
  "isNaN NaN = True"
| "isNaN _ = False"

subsection \<open>White space, \<open>trim\<close>, \<open>toLowerCase\<close>, \<open>toUpperCase\<close>\<close>

text \<open>The ASCII members of \<open>WhiteSpace\<close> and \<open>LineTerminator\<close>: TAB, LF, VT, FF, CR, SP.\<close>

definition is_ws :: "char \<Rightarrow> bool" where
  "is_ws c \<longleftrightarrow> (of_char c :: nat) \<in> {9, 10, 11, 12, 13, 32}"

definition trim :: "string \<Rightarrow> string" where
  "trim s = rev (dropWhile is_ws (rev (dropWhile is_ws s)))"

definition lower_char :: "char \<Rightarrow> char" where
  "lower_char c =
     (let n = (of_char c :: nat) in if 65 \<le> n \<and> n \<le> 90 then char_of (n + 32) else c)"

definition upper_char :: "char \<Rightarrow> char" where
  "upper_char c =
     (let n = (of_char c :: nat) in if 97 \<le> n \<and> n \<le> 122 then char_of (n - 32) else c)"

definition toLowerCase :: "string \<Rightarrow> string" where
  "toLowerCase s = map lower_char s"

definition toUpperCase :: "string \<Rightarrow> string" where
  "toUpperCase s = map upper_char s"

subsection \<open>\<open>Number\<close> applied to a string\<close>

text \<open>
  \<open>Number(s)\<close> follows the grammar \<open>StringNumericLiteral\<close>: the string is trimmed; the
  empty string is \<open>0\<close>; a decimal literal may carry a sign, a fraction and an exponent;
  \<open>Infinity\<close> may carry a sign; a literal with prefix \<open>0x\<close>, \<open>0o\<close> or \<open>0b\<close> carries no
  sign. Everything else is \<open>NaN\<close>.
\<close>

definition digit_of :: "char \<Rightarrow> nat option" where
  "digit_of c =
     (let n = (of_char c :: nat) in
      if 48 \<le> n \<and> n \<le> 57 then Some (n - 48)
      else if 97 \<le> n \<and> n \<le> 102 then Some (n - 87)
      else if 65 \<le> n \<and> n \<le> 70 then Some (n - 55)
      else None)"

definition is_digit :: "nat \<Rightarrow> char \<Rightarrow> bool" where
  "is_digit b c = (case digit_of c of None \<Rightarrow> False | Some d \<Rightarrow> d < b)"

definition digits_value :: "nat \<Rightarrow> string \<Rightarrow> nat" where
  "digits_value b s = foldl (\<lambda>acc c. acc * b + (case digit_of c of None \<Rightarrow> 0 | Some d \<Rightarrow> d)) 0 s"

definition all_digits :: "nat \<Rightarrow> string \<Rightarrow> bool" where
  "all_digits b s \<longleftrightarrow> s \<noteq> [] \<and> list_all (is_digit b) s"

text \<open>\<open>ExponentPart\<close>: \<open>e\<close> or \<open>E\<close>, an optional sign, at least one digit. The empty
  string is the absent exponent.\<close>

definition exponent_of :: "string \<Rightarrow> int option" where
  "exponent_of s =
     (case s of
        [] \<Rightarrow> Some 0
      | c # r \<Rightarrow>
          if c = CHR ''e'' \<or> c = CHR ''E'' then
            (case r of
               [] \<Rightarrow> None
             | d # ds \<Rightarrow>
                 if d = CHR ''+'' then
                   (if all_digits 10 ds then Some (int (digits_value 10 ds)) else None)
                 else if d = CHR ''-'' then
                   (if all_digits 10 ds then Some (- int (digits_value 10 ds)) else None)
                 else if all_digits 10 r then Some (int (digits_value 10 r)) else None)
          else None)"

definition scale10 :: "rat \<Rightarrow> int \<Rightarrow> rat" where
  "scale10 m e = (if 0 \<le> e then m * 10 ^ nat e else m / 10 ^ nat (- e))"

text \<open>\<open>StrUnsignedDecimalLiteral\<close>: \<open>Infinity\<close>, or digits with an optional fraction,
  where the digits before or after the point (not both) may be missing.\<close>

definition unsigned_decimal :: "string \<Rightarrow> jsnum" where
  "unsigned_decimal s =
     (if s = ''Infinity'' then PosInf
      else
        let ip = takeWhile (is_digit 10) s;
            r1 = dropWhile (is_digit 10) s;
            has_point = (r1 \<noteq> [] \<and> hd r1 = CHR ''.'');
            fp = (if has_point then takeWhile (is_digit 10) (tl r1) else []);
            r2 = (if has_point then dropWhile (is_digit 10) (tl r1) else r1)
        in
          if ip = [] \<and> fp = [] then NaN
          else
            (case exponent_of r2 of
               None \<Rightarrow> NaN
             | Some e \<Rightarrow>
                 Num (scale10
                   (of_nat (digits_value 10 ip)
                      + of_nat (digits_value 10 fp) / 10 ^ length fp) e)))"

fun negate :: "jsnum \<Rightarrow> jsnum" where
  "negate NaN = NaN"
| "negate (Num r) = Num (- r)"
| "negate PosInf = NegInf"
| "negate NegInf = PosInf"

definition non_decimal :: "string \<Rightarrow> jsnum option" where
  "non_decimal s =
     (case s of
        z # p # ds \<Rightarrow>
          if z \<noteq> CHR ''0'' then None
          else if p = CHR ''x'' \<or> p = CHR ''X'' then
            Some (if all_digits 16 ds then Num (of_nat (digits_value 16 ds)) else NaN)
          else if p = CHR ''o'' \<or> p = CHR ''O'' then
            Some (if all_digits 8 ds then Num (of_nat (digits_value 8 ds)) else NaN)
          else if p = CHR ''b'' \<or> p = CHR ''B'' then
            Some (if all_digits 2 ds then Num (of_nat (digits_value 2 ds)) else NaN)
          else None
      | _ \<Rightarrow> None)"

definition Number_str :: "string \<Rightarrow> jsnum" where
  "Number_str s =
     (let t = trim s in
      case t of
        [] \<Rightarrow> Num 0
      | c # r \<Rightarrow>
          (case non_decimal t of
             Some n \<Rightarrow> n
           | None \<Rightarrow>
               if c = CHR ''+'' then unsigned_decimal r
               else if c = CHR ''-'' then negate (unsigned_decimal r)
               else unsigned_decimal t))"

subsection \<open>\<open>Number\<close> applied to a body member\<close>

text \<open>
  \<open>undefined\<close> is \<open>NaN\<close>, \<open>null\<close> and \<open>false\<close> are \<open>0\<close>, \<open>true\<close> is \<open>1\<close>, a string is
  parsed, an object is \<open>NaN\<close>. An array is converted through its string form, the
  elements joined by commas: the empty array gives the empty string, an array of two or
  more elements gives a string with a comma (\<open>NaN\<close>), and an array of one element gives
  that element's string form, in which \<open>null\<close> is the empty string.
\<close>

fun Number_val :: "json \<Rightarrow> jsnum" where
  "Number_val JNull = Num 0"
| "Number_val (JBool b) = (if b then Num 1 else Num 0)"
| "Number_val (JNum r) = Num r"
| "Number_val (JStr s) = Number_str s"
| "Number_val (JObj _) = NaN"
| "Number_val (JArr []) = Num 0"
| "Number_val (JArr [JBool _]) = NaN"
| "Number_val (JArr [x]) = Number_val x"
| "Number_val (JArr (_ # _ # _)) = NaN"

definition Number_js :: "json option \<Rightarrow> jsnum" where
  "Number_js v = (case v of None \<Rightarrow> NaN | Some x \<Rightarrow> Number_val x)"

text \<open>Truthiness of a body member (\<open>!x\<close> is its negation).\<close>

fun truthy :: "json option \<Rightarrow> bool" where
  "truthy None = False"
| "truthy (Some JNull) = False"
| "truthy (Some (JBool b)) = b"
| "truthy (Some (JNum r)) = (r \<noteq> 0)"
| "truthy (Some (JStr s)) = (s \<noteq> [])"
| "truthy (Some (JArr _)) = True"
| "truthy (Some (JObj _)) = True"

section \<open>The relational store\<close>

text \<open>
  The tables of the two migrations. The first migration creates \<open>User\<close> (id, name,
  defaultCurrencyId), \<open>Category\<close>, \<open>Currency\<close> and \<open>Record\<close>; the second adds
  \<open>email\<close> and \<open>passwordHash\<close> to \<open>User\<close>, both \<open>NOT NULL\<close>, with a unique index
  on \<open>email\<close>. The handlers without authentication run on the first schema, the handlers
  with authentication on the second, so the store is generic in the extension of the
  user row.
\<close>

record user =
  u_id :: int
  u_name :: string
  u_defaultCurrencyId :: "int option"

record auth_user = user +
  u_email :: string
  u_passwordHash :: string

record category =
  cat_id :: int
  cat_name :: string

record currency =
  cur_id :: int
  cur_code :: string
  cur_name :: string

record expense_record =
  rec_id :: int
  rec_userId :: int
  rec_categoryId :: int
  rec_currencyId :: int
  rec_amount :: rat
  rec_createdAt :: string

text \<open>Each \<open>SERIAL\<close> column draws its value from a sequence; the store keeps the next
  value of each.\<close>

record 'u store =
  users :: "'u list"
  categories :: "category list"
  currencies :: "currency list"
  records :: "expense_record list"
  user_seq :: int
  category_seq :: int
  currency_seq :: int
  record_seq :: int

text \<open>
  What a call of the data-access client can throw: an argument of the wrong type, a
  violated foreign key (every foreign key of \<open>Record\<close> is \<open>ON DELETE RESTRICT\<close>), a
  violated unique index, or a missing row for \<open>delete\<close> and \<open>update\<close>.
\<close>

datatype prisma_error =
    ValidationError
  | ForeignKeyConstraint
  | UniqueConstraint
  | RecordNotFound

text \<open>
  The id columns and the foreign keys are \<open>SERIAL\<close> or \<open>INTEGER\<close>, four bytes
  wide. The client throws for an \<open>Int\<close> argument that is not an integral number of
  that range, and for a \<open>Float\<close> argument that is not finite.
\<close>

definition int4 :: "int \<Rightarrow> bool" where
  "int4 i \<longleftrightarrow> - 2147483648 \<le> i \<and> i \<le> 2147483647"

fun int_arg :: "jsnum \<Rightarrow> prisma_error + int" where
  "int_arg (Num r) =
     (if of_int \<lfloor>r\<rfloor> = r \<and> int4 \<lfloor>r\<rfloor> then Inr \<lfloor>r\<rfloor> else Inl ValidationError)"
| "int_arg _ = Inl ValidationError"

fun float_arg :: "jsnum \<Rightarrow> prisma_error + rat" where
  "float_arg (Num r) = Inr r"
| "float_arg _ = Inl ValidationError"

subsection \<open>Reads\<close>

definition user_findUnique ::
  "('a user_scheme) store \<Rightarrow> jsnum \<Rightarrow> prisma_error + ('a user_scheme) option" where
  "user_findUnique st n =
     (case int_arg n of
        Inl e \<Rightarrow> Inl e
      | Inr i \<Rightarrow> Inr (find (\<lambda>u. u_id u = i) (users st)))"

definition user_findUnique_email ::
  "auth_user store \<Rightarrow> string \<Rightarrow> prisma_error + auth_user option" where
  "user_findUnique_email st e = Inr (find (\<lambda>u. u_email u = e) (users st))"

definition category_findUnique ::
  "'u store \<Rightarrow> jsnum \<Rightarrow> prisma_error + category option" where
  "category_findUnique st n =
     (case int_arg n of
        Inl e \<Rightarrow> Inl e
      | Inr i \<Rightarrow> Inr (find (\<lambda>c. cat_id c = i) (categories st)))"

definition currency_findUnique ::
  "'u store \<Rightarrow> jsnum \<Rightarrow> prisma_error + currency option" where
  "currency_findUnique st n =
     (case int_arg n of
        Inl e \<Rightarrow> Inl e
      | Inr i \<Rightarrow> Inr (find (\<lambda>c. cur_id c = i) (currencies st)))"

definition record_findUnique ::
  "'u store \<Rightarrow> jsnum \<Rightarrow> prisma_error + expense_record option" where
  "record_findUnique st n =
     (case int_arg n of
        Inl e \<Rightarrow> Inl e
      | Inr i \<Rightarrow> Inr (find (\<lambda>r. rec_id r = i) (records st)))"

text \<open>The \<open>where\<close> object of \<open>record.findMany\<close>: a member that is absent does not
  filter; the members that are present are conjoined.\<close>

record record_where =
  w_userId :: "jsnum option"
  w_categoryId :: "jsnum option"

definition record_findMany ::
  "'u store \<Rightarrow> record_where \<Rightarrow> prisma_error + expense_record list" where
  "record_findMany st w =
     (case (case w_userId w of None \<Rightarrow> Inr None
            | Some n \<Rightarrow> (case int_arg n of Inl e \<Rightarrow> Inl e | Inr i \<Rightarrow> Inr (Some i))) of
        Inl e \<Rightarrow> Inl e
      | Inr uf \<Rightarrow>
          (case (case w_categoryId w of None \<Rightarrow> Inr None
                 | Some n \<Rightarrow> (case int_arg n of Inl e \<Rightarrow> Inl e | Inr i \<Rightarrow> Inr (Some i))) of
             Inl e \<Rightarrow> Inl e
           | Inr cf \<Rightarrow>
               Inr (filter (\<lambda>r. (case uf of None \<Rightarrow> True | Some i \<Rightarrow> rec_userId r = i) \<and>
                                (case cf of None \<Rightarrow> True | Some i \<Rightarrow> rec_categoryId r = i))
                      (records st))))"

definition record_count_currency :: "'u store \<Rightarrow> jsnum \<Rightarrow> prisma_error + nat" where
  "record_count_currency st n =
     (case int_arg n of
        Inl e \<Rightarrow> Inl e
      | Inr i \<Rightarrow> Inr (length (filter (\<lambda>r. rec_currencyId r = i) (records st))))"

subsection \<open>Writes\<close>

text \<open>
  A write returns the new store, or throws and leaves the tables as they were. (A
  sequence value consumed by an insert that fails is not modelled.)
\<close>

definition user_create :: "user store \<Rightarrow> string \<Rightarrow> prisma_error + user \<times> user store" where
  "user_create st nm =
     (let u = \<lparr>u_id = user_seq st, u_name = nm, u_defaultCurrencyId = None\<rparr>
      in Inr (u, st\<lparr>users := users st @ [u], user_seq := user_seq st + 1\<rparr>))"

definition user_create_auth ::
  "auth_user store \<Rightarrow> string \<Rightarrow> string \<Rightarrow> string \<Rightarrow> prisma_error + auth_user \<times> auth_user store"
  where
  "user_create_auth st nm em ph =
     (if \<exists>u \<in> set (users st). u_email u = em then Inl UniqueConstraint
      else
        let u = \<lparr>u_id = user_seq st, u_name = nm, u_defaultCurrencyId = None,
                 u_email = em, u_passwordHash = ph\<rparr>
        in Inr (u, st\<lparr>users := users st @ [u], user_seq := user_seq st + 1\<rparr>))"

definition user_update_defaultCurrencyId ::
  "('a user_scheme) store \<Rightarrow> jsnum \<Rightarrow> jsnum \<Rightarrow>
     prisma_error + 'a user_scheme \<times> ('a user_scheme) store" where
  "user_update_defaultCurrencyId st n c =
     (case int_arg n of
        Inl e \<Rightarrow> Inl e
      | Inr i \<Rightarrow>
          (case int_arg c of
             Inl e \<Rightarrow> Inl e
           | Inr ci \<Rightarrow>
               (case find (\<lambda>u. u_id u = i) (users st) of
                  None \<Rightarrow> Inl RecordNotFound
                | Some u \<Rightarrow>
                    if \<not> (\<exists>x \<in> set (currencies st). cur_id x = ci)
                    then Inl ForeignKeyConstraint
                    else
                      let u' = u\<lparr>u_defaultCurrencyId := Some ci\<rparr>
                      in Inr (u', st\<lparr>users :=
                            map (\<lambda>x. if u_id x = i then x\<lparr>u_defaultCurrencyId := Some ci\<rparr>
                                      else x) (users st)\<rparr>))))"

definition user_delete ::
  "('a user_scheme) store \<Rightarrow> jsnum \<Rightarrow> prisma_error + ('a user_scheme) store" where
  "user_delete st n =
     (case int_arg n of
        Inl e \<Rightarrow> Inl e
      | Inr i \<Rightarrow>
          if \<not> (\<exists>u \<in> set (users st). u_id u = i) then Inl RecordNotFound
          else if \<exists>r \<in> set (records st). rec_userId r = i then Inl ForeignKeyConstraint
          else Inr (st\<lparr>users := filter (\<lambda>u. u_id u \<noteq> i) (users st)\<rparr>))"

definition category_create ::
  "'u store \<Rightarrow> string \<Rightarrow> prisma_error + category \<times> 'u store" where
  "category_create st nm =
     (let c = \<lparr>cat_id = category_seq st, cat_name = nm\<rparr>
      in Inr (c, st\<lparr>categories := categories st @ [c],
                     category_seq := category_seq st + 1\<rparr>))"

definition category_delete :: "'u store \<Rightarrow> jsnum \<Rightarrow> prisma_error + 'u store" where
  "category_delete st n =
     (case int_arg n of
        Inl e \<Rightarrow> Inl e
      | Inr i \<Rightarrow>
          if \<not> (\<exists>c \<in> set (categories st). cat_id c = i) then Inl RecordNotFound
          else if \<exists>r \<in> set (records st). rec_categoryId r = i then Inl ForeignKeyConstraint
          else Inr (st\<lparr>categories := filter (\<lambda>c. cat_id c \<noteq> i) (categories st)\<rparr>))"

definition currency_create ::
  "'u store \<Rightarrow> string \<Rightarrow> string \<Rightarrow> prisma_error + currency \<times> 'u store" where
  "currency_create st cd nm =
     (if \<exists>c \<in> set (currencies st). cur_code c = cd then Inl UniqueConstraint
      else
        let c = \<lparr>cur_id = currency_seq st, cur_code = cd, cur_name = nm\<rparr>
        in Inr (c, st\<lparr>currencies := currencies st @ [c],
                       currency_seq := currency_seq st + 1\<rparr>))"

text \<open>Deleting a currency is restricted by \<open>Record\<close> and sets the \<open>defaultCurrencyId\<close>
  of the users that refer to it to \<open>NULL\<close>.\<close>

definition currency_delete ::
  "('a user_scheme) store \<Rightarrow> jsnum \<Rightarrow> prisma_error + ('a user_scheme) store" where
  "currency_delete st n =
     (case int_arg n of
        Inl e \<Rightarrow> Inl e
      | Inr i \<Rightarrow>
          if \<not> (\<exists>c \<in> set (currencies st). cur_id c = i) then Inl RecordNotFound
          else if \<exists>r \<in> set (records st). rec_currencyId r = i then Inl ForeignKeyConstraint
          else Inr (st\<lparr>currencies := filter (\<lambda>c. cur_id c \<noteq> i) (currencies st),
                       users := map (\<lambda>u. if u_defaultCurrencyId u = Some i
                                          then u\<lparr>u_defaultCurrencyId := None\<rparr> else u)
                                  (users st)\<rparr>))"

definition record_create ::
  "('a user_scheme) store \<Rightarrow> string \<Rightarrow> jsnum \<Rightarrow> jsnum \<Rightarrow> jsnum \<Rightarrow> jsnum \<Rightarrow>
     prisma_error + expense_record \<times> ('a user_scheme) store" where
  "record_create st now userId categoryId currencyId amount =
     (case int_arg userId of
        Inl e \<Rightarrow> Inl e
      | Inr ui \<Rightarrow>
          (case int_arg categoryId of
             Inl e \<Rightarrow> Inl e
           | Inr ci \<Rightarrow>
               (case int_arg currencyId of
                  Inl e \<Rightarrow> Inl e
                | Inr ki \<Rightarrow>
                    (case float_arg amount of
                       Inl e \<Rightarrow> Inl e
                     | Inr a \<Rightarrow>
                         if \<not> ((\<exists>u \<in> set (users st). u_id u = ui) \<and>
                                (\<exists>c \<in> set (categories st). cat_id c = ci) \<and>
                                (\<exists>c \<in> set (currencies st). cur_id c = ki))
                         then Inl ForeignKeyConstraint
                         else
                           let r = \<lparr>rec_id = record_seq st, rec_userId = ui,
                                    rec_categoryId = ci, rec_currencyId = ki,
                                    rec_amount = a, rec_createdAt = now\<rparr>
                           in Inr (r, st\<lparr>records := records st @ [r],
                                          record_seq := record_seq st + 1\<rparr>)))))"

definition record_delete :: "'u store \<Rightarrow> jsnum \<Rightarrow> prisma_error + 'u store" where
  "record_delete st n =
     (case int_arg n of
        Inl e \<Rightarrow> Inl e
      | Inr i \<Rightarrow>
          if \<not> (\<exists>r \<in> set (records st). rec_id r = i) then Inl RecordNotFound
          else Inr (st\<lparr>records := filter (\<lambda>r. rec_id r \<noteq> i) (records st)\<rparr>))"

definition record_deleteMany_userId :: "'u store \<Rightarrow> jsnum \<Rightarrow> prisma_error + 'u store" where
  "record_deleteMany_userId st n =
     (case int_arg n of
        Inl e \<Rightarrow> Inl e
      | Inr i \<Rightarrow> Inr (st\<lparr>records := filter (\<lambda>r. rec_userId r \<noteq> i) (records st)\<rparr>))"

definition record_deleteMany_categoryId :: "'u store \<Rightarrow> jsnum \<Rightarrow> prisma_error + 'u store" where
  "record_deleteMany_categoryId st n =
     (case int_arg n of
        Inl e \<Rightarrow> Inl e
      | Inr i \<Rightarrow> Inr (st\<lparr>records := filter (\<lambda>r. rec_categoryId r \<noteq> i) (records st)\<rparr>))"

section \<open>Responses\<close>

record response =
  status :: nat
  body :: "json option"

text \<open>\<open>res.status(code).json({ message })\<close>, \<open>res.status(code).json(v)\<close> and
  \<open>res.status(code).send()\<close>.\<close>

definition message :: "nat \<Rightarrow> string \<Rightarrow> response" where
  "message code m = \<lparr>status = code, body = Some (JObj [(''message'', JStr m)])\<rparr>"

definition reply :: "nat \<Rightarrow> json \<Rightarrow> response" where
  "reply code v = \<lparr>status = code, body = Some v\<rparr>"

definition no_content :: response where
  "no_content = \<lparr>status = 204, body = None\<rparr>"

text \<open>A handler ends with a response or with a thrown error, and leaves a store.\<close>

type_synonym 'u outcome = "(prisma_error + response) \<times> 'u store"

text \<open>
  \<open>asyncHandler\<close> passes a thrown error to \<open>next\<close>, and the error middleware of the
  application answers 500 with a generic message.
\<close>

definition error_middleware :: "prisma_error + response \<Rightarrow> response" where
  "error_middleware r =
     (case r of Inl e \<Rightarrow> message 500 ''Internal server error'' | Inr resp \<Rightarrow> resp)"

definition respond :: "'u outcome \<Rightarrow> response \<times> 'u store" where
  "respond out = (error_middleware (fst out), snd out)"

subsection \<open>Serialisation of rows\<close>

definition json_int :: "int \<Rightarrow> json" where
  "json_int i = JNum (of_int i)"

definition json_opt_int :: "int option \<Rightarrow> json" where
  "json_opt_int v = (case v of None \<Rightarrow> JNull | Some i \<Rightarrow> json_int i)"

definition json_of_category :: "category \<Rightarrow> json" where
  "json_of_category c = JObj [(''id'', json_int (cat_id c)), (''name'', JStr (cat_name c))]"

definition json_of_currency :: "currency \<Rightarrow> json" where
  "json_of_currency c =
     JObj [(''id'', json_int (cur_id c)), (''code'', JStr (cur_code c)),
           (''name'', JStr (cur_name c))]"

definition record_fields :: "expense_record \<Rightarrow> (string \<times> json) list" where
  "record_fields r =
     [(''id'', json_int (rec_id r)), (''userId'', json_int (rec_userId r)),
      (''categoryId'', json_int (rec_categoryId r)),
      (''currencyId'', json_int (rec_currencyId r)),
      (''amount'', JNum (rec_amount r)), (''createdAt'', JStr (rec_createdAt r))]"

definition json_of_record :: "expense_record \<Rightarrow> json" where
  "json_of_record r = JObj (record_fields r)"

text \<open>All columns of a user row: of the first schema, and of the second.\<close>

definition user_fields :: "user \<Rightarrow> (string \<times> json) list" where
  "user_fields u =
     [(''id'', json_int (u_id u)), (''name'', JStr (u_name u)),
      (''defaultCurrencyId'', json_opt_int (u_defaultCurrencyId u))]"

definition auth_user_fields :: "auth_user \<Rightarrow> (string \<times> json) list" where
  "auth_user_fields u =
     [(''id'', json_int (u_id u)), (''name'', JStr (u_name u)),
      (''email'', JStr (u_email u)), (''passwordHash'', JStr (u_passwordHash u)),
      (''defaultCurrencyId'', json_opt_int (u_defaultCurrencyId u))]"

text \<open>The relation \<open>defaultCurrency\<close> of a user, read from the store.\<close>

definition defaultCurrency :: "('a user_scheme) store \<Rightarrow> 'a user_scheme \<Rightarrow> json" where
  "defaultCurrency st u =
     (case u_defaultCurrencyId u of
        None \<Rightarrow> JNull
      | Some i \<Rightarrow>
          (case find (\<lambda>c. cur_id c = i) (currencies st) of
             None \<Rightarrow> JNull
           | Some c \<Rightarrow> json_of_currency c))"

text \<open>\<open>include: { defaultCurrency: true }\<close> on the first schema.\<close>

definition json_of_user_include :: "user store \<Rightarrow> user \<Rightarrow> json" where
  "json_of_user_include st u =
     JObj (user_fields u @ [(''defaultCurrency'', defaultCurrency st u)])"

text \<open>\<open>include: { user: true, category: true, currency: true }\<close>: the record with the
  three rows it refers to, each with all its columns.\<close>

definition json_of_record_include ::
  "('a user_scheme) store \<Rightarrow> ('a user_scheme \<Rightarrow> (string \<times> json) list) \<Rightarrow> expense_record \<Rightarrow> json"
  where
  "json_of_record_include st ufields r =
     JObj (record_fields r @
       [(''user'', (case find (\<lambda>u. u_id u = rec_userId r) (users st) of
                      None \<Rightarrow> JNull | Some u \<Rightarrow> JObj (ufields u))),
        (''category'', (case find (\<lambda>c. cat_id c = rec_categoryId r) (categories st) of
                          None \<Rightarrow> JNull | Some c \<Rightarrow> json_of_category c)),
        (''currency'', (case find (\<lambda>c. cur_id c = rec_currencyId r) (currencies st) of
                          None \<Rightarrow> JNull | Some c \<Rightarrow> json_of_currency c))])"

subsection \<open>Tests on body members\<close>

text \<open>\<open>typeof v === "number"\<close> and \<open>typeof v === "string"\<close>.\<close>

fun is_number :: "json option \<Rightarrow> bool" where
  "is_number (Some (JNum _)) = True"
| "is_number _ = False"

fun is_string :: "json option \<Rightarrow> bool" where
  "is_string (Some (JStr _)) = True"
| "is_string _ = False"

text \<open>The number held by a member that passed \<open>typeof v === "number"\<close>, and the string
  held by one that passed \<open>typeof v === "string"\<close>.\<close>

fun number_of :: "json option \<Rightarrow> jsnum" where
  "number_of (Some (JNum r)) = Num r"
| "number_of _ = NaN"

fun string_of :: "json option \<Rightarrow> string" where
  "string_of (Some (JStr s)) = s"
| "string_of _ = []"

text \<open>\<open>!user.defaultCurrencyId\<close>: true for \<open>null\<close> and for \<open>0\<close>.\<close>

fun falsy_id :: "int option \<Rightarrow> bool" where
  "falsy_id None = True"
| "falsy_id (Some i) = (i = 0)"

text \<open>The number held by a \<open>defaultCurrencyId\<close> that is not \<open>null\<close>.\<close>

fun id_number :: "int option \<Rightarrow> jsnum" where
  "id_number None = NaN"
| "id_number (Some i) = Num (of_int i)"

text \<open>\<open>!param\<close> for a query parameter: true when it is absent or empty.\<close>

fun falsy_param :: "string option \<Rightarrow> bool" where
  "falsy_param None = True"
| "falsy_param (Some s) = (s = [])"

section \<open>The persistent routes without authentication\<close>

text \<open>
  One definition for each route of the router that uses the data-access client and has no
  authentication. A handler takes the store, the path parameter (a string), the query
  parameters or the body it reads, and for an insert into \<open>Record\<close> the time of the
  database, and returns its outcome.
\<close>

definition db_post_user :: "user store \<Rightarrow> jsobject \<Rightarrow> user outcome" where
  "db_post_user st req_body =
     (let name = req_body ''name'' in
      if \<not> truthy name \<or> \<not> is_string name
      then (Inr (message 400 ''Field 'name' is required''), st)
      else
        (case user_create st (trim (string_of name)) of
           Inl e \<Rightarrow> (Inl e, st)
         | Inr (u, st') \<Rightarrow> (Inr (reply 201 (JObj (user_fields u))), st')))"

definition db_get_user :: "user store \<Rightarrow> string \<Rightarrow> user outcome" where
  "db_get_user st userId_param =
     (let userId = Number_str userId_param in
      if isNaN userId then (Inr (message 400 ''Invalid user id''), st)
      else
        (case user_findUnique st userId of
           Inl e \<Rightarrow> (Inl e, st)
         | Inr None \<Rightarrow> (Inr (message 404 ''User not found''), st)
         | Inr (Some u) \<Rightarrow> (Inr (reply 200 (json_of_user_include st u)), st)))"

definition db_delete_user :: "user store \<Rightarrow> string \<Rightarrow> user outcome" where
  "db_delete_user st userId_param =
     (let userId = Number_str userId_param in
      if isNaN userId then (Inr (message 400 ''Invalid user id''), st)
      else
        (case user_findUnique st userId of
           Inl e \<Rightarrow> (Inl e, st)
         | Inr None \<Rightarrow> (Inr (message 404 ''User not found''), st)
         | Inr (Some existing) \<Rightarrow>
             (case record_deleteMany_userId st userId of
                Inl e \<Rightarrow> (Inl e, st)
              | Inr st1 \<Rightarrow>
                  (case user_delete st1 userId of
                     Inl e \<Rightarrow> (Inl e, st1)
                   | Inr st2 \<Rightarrow> (Inr no_content, st2)))))"

definition db_get_users :: "user store \<Rightarrow> user outcome" where
  "db_get_users st = (Inr (reply 200 (JArr (map (json_of_user_include st) (users st)))), st)"

definition db_patch_user_currency :: "user store \<Rightarrow> string \<Rightarrow> jsobject \<Rightarrow> user outcome" where
  "db_patch_user_currency st userId_param req_body =
     (let userId = Number_str userId_param in
      if isNaN userId then (Inr (message 400 ''Invalid user id''), st)
      else
        let currencyId = req_body ''currencyId'' in
        if \<not> is_number currencyId
        then (Inr (message 400 ''Field 'currencyId' is required and must be number''), st)
        else
          (case user_findUnique st userId of
             Inl e \<Rightarrow> (Inl e, st)
           | Inr None \<Rightarrow> (Inr (message 404 ''User not found''), st)
           | Inr (Some u) \<Rightarrow>
               (case currency_findUnique st (number_of currencyId) of
                  Inl e \<Rightarrow> (Inl e, st)
                | Inr None \<Rightarrow> (Inr (message 404 ''Currency not found''), st)
                | Inr (Some c) \<Rightarrow>
                    (case user_update_defaultCurrencyId st userId (number_of currencyId) of
                       Inl e \<Rightarrow> (Inl e, st)
                     | Inr (updated, st') \<Rightarrow>
                         (Inr (reply 200 (json_of_user_include st' updated)), st')))))"

definition db_get_category :: "user store \<Rightarrow> user outcome" where
  "db_get_category st = (Inr (reply 200 (JArr (map json_of_category (categories st)))), st)"

definition db_post_category :: "user store \<Rightarrow> jsobject \<Rightarrow> user outcome" where
  "db_post_category st req_body =
     (let name = req_body ''name'' in
      if \<not> truthy name \<or> \<not> is_string name
      then (Inr (message 400 ''Field 'name' is required''), st)
      else
        (case category_create st (trim (string_of name)) of
           Inl e \<Rightarrow> (Inl e, st)
         | Inr (c, st') \<Rightarrow> (Inr (reply 201 (json_of_category c)), st')))"

definition db_delete_category :: "user store \<Rightarrow> string option \<Rightarrow> user outcome" where
  "db_delete_category st idParam =
     (case idParam of
        None \<Rightarrow> (Inr (message 400 ''Query parameter 'id' is required''), st)
      | Some p \<Rightarrow>
          if p = [] then (Inr (message 400 ''Query parameter 'id' is required''), st)
          else
            let categoryId = Number_str p in
            if isNaN categoryId then (Inr (message 400 ''Invalid category id''), st)
            else
              (case category_findUnique st categoryId of
                 Inl e \<Rightarrow> (Inl e, st)
               | Inr None \<Rightarrow> (Inr (message 404 ''Category not found''), st)
               | Inr (Some existing) \<Rightarrow>
                   (case record_deleteMany_categoryId st categoryId of
                      Inl e \<Rightarrow> (Inl e, st)
                    | Inr st1 \<Rightarrow>
                        (case category_delete st1 categoryId of
                           Inl e \<Rightarrow> (Inl e, st1)
                         | Inr st2 \<Rightarrow> (Inr no_content, st2)))))"

definition db_get_currency :: "user store \<Rightarrow> user outcome" where
  "db_get_currency st = (Inr (reply 200 (JArr (map json_of_currency (currencies st)))), st)"

definition db_post_currency :: "user store \<Rightarrow> jsobject \<Rightarrow> user outcome" where
  "db_post_currency st req_body =
     (let code = req_body ''code''; name = req_body ''name'' in
      if \<not> truthy code \<or> \<not> is_string code
      then (Inr (message 400 ''Field 'code' is required''), st)
      else if \<not> truthy name \<or> \<not> is_string name
      then (Inr (message 400 ''Field 'name' is required''), st)
      else
        (case currency_create st (toUpperCase (trim (string_of code))) (trim (string_of name)) of
           Inl e \<Rightarrow> (Inl e, st)
         | Inr (c, st') \<Rightarrow> (Inr (reply 201 (json_of_currency c)), st')))"

definition db_delete_currency :: "user store \<Rightarrow> string \<Rightarrow> user outcome" where
  "db_delete_currency st id_param =
     (let currencyId = Number_str id_param in
      if isNaN currencyId then (Inr (message 400 ''Invalid currency id''), st)
      else
        (case currency_findUnique st currencyId of
           Inl e \<Rightarrow> (Inl e, st)
         | Inr None \<Rightarrow> (Inr (message 404 ''Currency not found''), st)
         | Inr (Some existing) \<Rightarrow>
             (case record_count_currency st currencyId of
                Inl e \<Rightarrow> (Inl e, st)
              | Inr recordsCount \<Rightarrow>
                  if recordsCount > 0
                  then (Inr (message 400
                          ''Cannot delete currency: there are records using this currency''), st)
                  else
                    (case currency_delete st currencyId of
                       Inl e \<Rightarrow> (Inl e, st)
                     | Inr st' \<Rightarrow> (Inr no_content, st')))))"

definition db_post_record :: "user store \<Rightarrow> string \<Rightarrow> jsobject \<Rightarrow> user outcome" where
  "db_post_record st now req_body =
     (let userId = req_body ''userId''; categoryId = req_body ''categoryId'';
          amount = req_body ''amount''; currencyId = req_body ''currencyId'' in
      if \<not> is_number userId \<or> \<not> is_number categoryId \<or> \<not> is_number amount
      then (Inr (message 400
              ''Fields 'userId', 'categoryId' and 'amount' are required and must be numbers''),
            st)
      else
        (case user_findUnique st (number_of userId) of
           Inl e \<Rightarrow> (Inl e, st)
         | Inr None \<Rightarrow> (Inr (message 400 ''User does not exist''), st)
         | Inr (Some u) \<Rightarrow>
             (case category_findUnique st (number_of categoryId) of
                Inl e \<Rightarrow> (Inl e, st)
              | Inr None \<Rightarrow> (Inr (message 400 ''Category does not exist''), st)
              | Inr (Some category) \<Rightarrow>
                  (case
                     (if is_number currencyId then
                        (case currency_findUnique st (number_of currencyId) of
                           Inl e \<Rightarrow> Inl (Inl e)
                         | Inr None \<Rightarrow> Inl (Inr (message 400 ''Currency does not exist''))
                         | Inr (Some c) \<Rightarrow> Inr (number_of currencyId))
                      else if falsy_id (u_defaultCurrencyId u) then
                        Inl (Inr (message 400
                          ''User has no default currency and no currencyId was provided''))
                      else Inr (id_number (u_defaultCurrencyId u)))
                   of
                     Inl early \<Rightarrow> (early, st)
                   | Inr finalCurrencyId \<Rightarrow>
                       (case record_create st now (number_of userId) (number_of categoryId)
                               finalCurrencyId (number_of amount) of
                          Inl e \<Rightarrow> (Inl e, st)
                        | Inr (r, st') \<Rightarrow> (Inr (reply 201 (json_of_record r)), st'))))))"

definition db_get_record :: "user store \<Rightarrow> string \<Rightarrow> user outcome" where
  "db_get_record st recordId_param =
     (let recordId = Number_str recordId_param in
      if isNaN recordId then (Inr (message 400 ''Invalid record id''), st)
      else
        (case record_findUnique st recordId of
           Inl e \<Rightarrow> (Inl e, st)
         | Inr None \<Rightarrow> (Inr (message 404 ''Record not found''), st)
         | Inr (Some r) \<Rightarrow> (Inr (reply 200 (json_of_record_include st user_fields r)), st)))"

definition db_delete_record :: "user store \<Rightarrow> string \<Rightarrow> user outcome" where
  "db_delete_record st recordId_param =
     (let recordId = Number_str recordId_param in
      if isNaN recordId then (Inr (message 400 ''Invalid record id''), st)
      else
        (case record_findUnique st recordId of
           Inl e \<Rightarrow> (Inl e, st)
         | Inr None \<Rightarrow> (Inr (message 404 ''Record not found''), st)
         | Inr (Some existing) \<Rightarrow>
             (case record_delete st recordId of
                Inl e \<Rightarrow> (Inl e, st)
              | Inr st' \<Rightarrow> (Inr no_content, st'))))"

text \<open>
  \<open>GET /record\<close> reads \<open>user_id\<close> and \<open>category_id\<close>. A parameter that is absent or
  empty is not a filter; when neither is a filter the answer is 400.
\<close>

definition db_get_records :: "user store \<Rightarrow> (string \<rightharpoonup> string) \<Rightarrow> user outcome" where
  "db_get_records st query =
     (let userIdParam = query ''user_id''; categoryIdParam = query ''category_id'' in
      if falsy_param userIdParam \<and> falsy_param categoryIdParam
      then (Inr (message 400
              ''At least one of query parameters 'user_id' or 'category_id' is required''), st)
      else
        (case
           (case userIdParam of
              None \<Rightarrow> Inr None
            | Some p \<Rightarrow>
                if p = [] then Inr None
                else if isNaN (Number_str p) then Inl (message 400 ''Invalid user_id'')
                else Inr (Some (Number_str p)))
         of
           Inl early \<Rightarrow> (Inr early, st)
         | Inr where_userId \<Rightarrow>
             (case
                (case categoryIdParam of
                   None \<Rightarrow> Inr None
                 | Some p \<Rightarrow>
                     if p = [] then Inr None
                     else if isNaN (Number_str p) then Inl (message 400 ''Invalid category_id'')
                     else Inr (Some (Number_str p)))
              of
                Inl early \<Rightarrow> (Inr early, st)
              | Inr where_categoryId \<Rightarrow>
                  (case record_findMany st
                          \<lparr>w_userId = where_userId, w_categoryId = where_categoryId\<rparr> of
                     Inl e \<Rightarrow> (Inl e, st)
                   | Inr rs \<Rightarrow>
                       (Inr (reply 200 (JArr (map (json_of_record_include st user_fields) rs))),
                        st)))))"

section \<open>The routes with authentication\<close>

text \<open>
  The routes of the router, in the order of their registration, with the path parameter
  of those that have one; \<open>No_route\<close> is a request that none of them answers.
\<close>

datatype http_method = GET | POST | PATCH | DELETE | PUT

datatype route =
    Get_healthcheck
  | Post_user
  | Post_auth_login
  | Get_user string
  | Get_users
  | Patch_user_currency string
  | Delete_user string
  | Get_category
  | Post_category
  | Delete_category
  | Get_currency
  | Post_currency
  | Delete_currency string
  | Post_record
  | Get_record string
  | Get_records
  | Delete_record string
  | No_route

text \<open>
  The libraries for password hashing and for tokens, the matching of paths by the web
  framework, the secret and the clock are outside the repository; the handlers take them
  as an environment. \<open>bcrypt_hash\<close> stands for \<open>bcrypt.hash\<close> with the salt it draws
  at this call, \<open>jwt_sign\<close> and \<open>jwt_verify\<close> for the two library calls at the time of
  the request. \<open>jwt_verify\<close> returns the member \<open>userId\<close> of the payload, or throws an
  error with a name. \<open>match_route\<close> is the first route whose method and pattern the
  framework matches against the method and the path of a request, with the decoded
  parameter.
\<close>

datatype jwt_result = Payload "json option" | Throws string

record env =
  bcrypt_hash :: "string \<Rightarrow> nat \<Rightarrow> string"
  bcrypt_compare :: "string \<Rightarrow> string \<Rightarrow> bool"
  jwt_sign :: "int \<Rightarrow> string \<Rightarrow> string \<Rightarrow> string"
  jwt_verify :: "string \<Rightarrow> string \<Rightarrow> jwt_result"
  match_route :: "http_method \<Rightarrow> string list \<Rightarrow> route"
  JWT_SECRET :: string
  now :: string

text \<open>
  A request as it reaches the router: the method, the pieces of the path between its
  \<open>/\<close>, the \<open>Authorization\<close> header, the query parameters and the body that
  \<open>express.json\<close> has parsed. A request whose body the parser refuses goes to the
  error middleware and does not reach the router. The middleware adds \<open>userId\<close>.
\<close>

record request =
  req_method :: http_method
  req_path :: "string list"
  req_authorization :: "string option"
  req_query :: "string \<rightharpoonup> string"
  req_body :: jsobject

record auth_request = request +
  req_userId :: "json option"

subsection \<open>Public routes\<close>

definition healthcheck :: "env \<Rightarrow> response" where
  "healthcheck ev = reply 200 (JObj [(''date'', JStr (now ev)), (''status'', JStr ''ok'')])"

text \<open>\<open>select: { id, name, email, defaultCurrencyId }\<close>.\<close>

definition user_select :: "auth_user \<Rightarrow> (string \<times> json) list" where
  "user_select u =
     [(''id'', json_int (u_id u)), (''name'', JStr (u_name u)),
      (''email'', JStr (u_email u)),
      (''defaultCurrencyId'', json_opt_int (u_defaultCurrencyId u))]"

text \<open>The same selection with \<open>defaultCurrency: true\<close>.\<close>

definition user_select_include :: "auth_user store \<Rightarrow> auth_user \<Rightarrow> json" where
  "user_select_include st u =
     JObj (user_select u @ [(''defaultCurrency'', defaultCurrency st u)])"

definition auth_post_user :: "env \<Rightarrow> auth_user store \<Rightarrow> jsobject \<Rightarrow> auth_user outcome" where
  "auth_post_user ev st b =
     (let name = b ''name''; email = b ''email''; password = b ''password'' in
      if \<not> truthy name \<or> \<not> is_string name
      then (Inr (message 400 ''Field 'name' is required''), st)
      else if \<not> truthy email \<or> \<not> is_string email
      then (Inr (message 400 ''Field 'email' is required''), st)
      else if \<not> truthy password \<or> \<not> is_string password \<or> length (string_of password) < 6
      then (Inr (message 400 ''Password must be at least 6 characters long''), st)
      else
        let normalizedEmail = toLowerCase (trim (string_of email)) in
        (case user_findUnique_email st normalizedEmail of
           Inl e \<Rightarrow> (Inl e, st)
         | Inr (Some existing) \<Rightarrow>
             (Inr (message 400 ''User with this email already exists''), st)
         | Inr None \<Rightarrow>
             let passwordHash = bcrypt_hash ev (string_of password) 10 in
             (case user_create_auth st (trim (string_of name)) normalizedEmail passwordHash of
                Inl e \<Rightarrow> (Inl e, st)
              | Inr (u, st') \<Rightarrow> (Inr (reply 201 (JObj (user_select u))), st'))))"

definition auth_login :: "env \<Rightarrow> auth_user store \<Rightarrow> jsobject \<Rightarrow> auth_user outcome" where
  "auth_login ev st b =
     (let email = b ''email''; password = b ''password'' in
      if \<not> truthy email \<or> \<not> is_string email \<or> \<not> truthy password \<or> \<not> is_string password
      then (Inr (message 400 ''Email and password are required''), st)
      else
        let normalizedEmail = toLowerCase (trim (string_of email)) in
        (case user_findUnique_email st normalizedEmail of
           Inl e \<Rightarrow> (Inl e, st)
         | Inr None \<Rightarrow> (Inr (message 401 ''Invalid email or password''), st)
         | Inr (Some u) \<Rightarrow>
             let isValid = bcrypt_compare ev (string_of password) (u_passwordHash u) in
             if \<not> isValid then (Inr (message 401 ''Invalid email or password''), st)
             else
               let token = jwt_sign ev (u_id u) (JWT_SECRET ev) ''1h'' in
               (Inr (reply 200
                  (JObj [(''accessToken'', JStr token), (''user'', JObj (user_select u))])),
                st)))"

subsection \<open>The authentication middleware\<close>

text \<open>\<open>s.split(" ")\<close>: the pieces of \<open>s\<close> between single spaces; there is always one.\<close>

fun split_space :: "string \<Rightarrow> string list" where
  "split_space [] = [[]]"
| "split_space (c # cs) =
     (if c = CHR '' '' then [] # split_space cs
      else (case split_space cs of
              [] \<Rightarrow> [[c]]
            | p # ps \<Rightarrow> (c # p) # ps))"

definition auth_error :: "string \<Rightarrow> string \<Rightarrow> string \<Rightarrow> response" where
  "auth_error err key text =
     \<lparr>status = 401, body = Some (JObj [(''error'', JStr err), (key, JStr text)])\<rparr>"

text \<open>The middleware answers itself (\<open>Inl\<close>) or calls \<open>next\<close> with the request
  (\<open>Inr\<close>), to which it has added the user id of the token.\<close>

definition authMiddleware :: "env \<Rightarrow> request \<Rightarrow> response + auth_request" where
  "authMiddleware ev req =
     (case req_authorization req of
        None \<Rightarrow>
          Inl (auth_error ''authorization_required'' ''description''
                 ''Request does not contain an access token.'')
      | Some authHeader \<Rightarrow>
          if authHeader = [] then
            Inl (auth_error ''authorization_required'' ''description''
                   ''Request does not contain an access token.'')
          else
            (case split_space authHeader of
               scheme # token # rest \<Rightarrow>
                 if scheme \<noteq> ''Bearer'' \<or> token = [] then
                   Inl (auth_error ''invalid_token'' ''message''
                          ''Authorization header must be in the format: Bearer <token>.'')
                 else
                   (case jwt_verify ev token (JWT_SECRET ev) of
                      Payload uid \<Rightarrow> Inr (request.extend req \<lparr>req_userId = uid\<rparr>)
                    | Throws err_name \<Rightarrow>
                        if err_name = ''TokenExpiredError'' then
                          Inl (auth_error ''token_expired'' ''message'' ''The token has expired.'')
                        else
                          Inl (auth_error ''invalid_token'' ''message''
                                 ''Signature verification failed.''))
             | _ \<Rightarrow>
                 Inl (auth_error ''invalid_token'' ''message''
                        ''Authorization header must be in the format: Bearer <token>.'')))"

subsection \<open>Protected routes\<close>

definition auth_get_user :: "auth_user store \<Rightarrow> string \<Rightarrow> auth_user outcome" where
  "auth_get_user st userId_param =
     (let userId = Number_str userId_param in
      if isNaN userId then (Inr (message 400 ''Invalid user id''), st)
      else
        (case user_findUnique st userId of
           Inl e \<Rightarrow> (Inl e, st)
         | Inr None \<Rightarrow> (Inr (message 404 ''User not found''), st)
         | Inr (Some u) \<Rightarrow> (Inr (reply 200 (user_select_include st u)), st)))"

definition auth_get_users :: "auth_user store \<Rightarrow> auth_user outcome" where
  "auth_get_users st = (Inr (reply 200 (JArr (map (user_select_include st) (users st)))), st)"

definition auth_patch_user_currency ::
  "auth_user store \<Rightarrow> string \<Rightarrow> jsobject \<Rightarrow> auth_user outcome" where
  "auth_patch_user_currency st userId_param b =
     (let userId = Number_str userId_param; currencyId = b ''currencyId'' in
      if isNaN userId then (Inr (message 400 ''Invalid user id''), st)
      else
        let parsedCurrencyId = Number_js currencyId in
        if isNaN parsedCurrencyId then (Inr (message 400 ''Invalid currency id''), st)
        else
          (case user_findUnique st userId of
             Inl e \<Rightarrow> (Inl e, st)
           | Inr None \<Rightarrow> (Inr (message 404 ''User not found''), st)
           | Inr (Some u) \<Rightarrow>
               (case currency_findUnique st parsedCurrencyId of
                  Inl e \<Rightarrow> (Inl e, st)
                | Inr None \<Rightarrow> (Inr (message 400 ''Currency does not exist''), st)
                | Inr (Some c) \<Rightarrow>
                    (case user_update_defaultCurrencyId st userId parsedCurrencyId of
                       Inl e \<Rightarrow> (Inl e, st)
                     | Inr (updated, st') \<Rightarrow>
                         (Inr (reply 200 (user_select_include st' updated)), st')))))"

text \<open>\<open>DELETE /user/:userId\<close> deletes the user row only.\<close>

definition auth_delete_user :: "auth_user store \<Rightarrow> string \<Rightarrow> auth_user outcome" where
  "auth_delete_user st userId_param =
     (let userId = Number_str userId_param in
      if isNaN userId then (Inr (message 400 ''Invalid user id''), st)
      else
        (case user_findUnique st userId of
           Inl e \<Rightarrow> (Inl e, st)
         | Inr None \<Rightarrow> (Inr (message 404 ''User not found''), st)
         | Inr (Some existing) \<Rightarrow>
             (case user_delete st userId of
                Inl e \<Rightarrow> (Inl e, st)
              | Inr st' \<Rightarrow> (Inr no_content, st'))))"

definition auth_get_category :: "auth_user store \<Rightarrow> auth_user outcome" where
  "auth_get_category st = (Inr (reply 200 (JArr (map json_of_category (categories st)))), st)"

definition auth_post_category :: "auth_user store \<Rightarrow> jsobject \<Rightarrow> auth_user outcome" where
  "auth_post_category st b =
     (let name = b ''name'' in
      if \<not> truthy name \<or> \<not> is_string name
      then (Inr (message 400 ''Field 'name' is required''), st)
      else
        (case category_create st (trim (string_of name)) of
           Inl e \<Rightarrow> (Inl e, st)
         | Inr (c, st') \<Rightarrow> (Inr (reply 201 (json_of_category c)), st')))"

definition auth_delete_category :: "auth_user store \<Rightarrow> string option \<Rightarrow> auth_user outcome" where
  "auth_delete_category st idParam =
     (case idParam of
        None \<Rightarrow> (Inr (message 400 ''Query parameter 'id' is required''), st)
      | Some p \<Rightarrow>
          if p = [] then (Inr (message 400 ''Query parameter 'id' is required''), st)
          else
            let categoryId = Number_str p in
            if isNaN categoryId then (Inr (message 400 ''Invalid category id''), st)
            else
              (case category_findUnique st categoryId of
                 Inl e \<Rightarrow> (Inl e, st)
               | Inr None \<Rightarrow> (Inr (message 404 ''Category not found''), st)
               | Inr (Some category) \<Rightarrow>
                   (case record_deleteMany_categoryId st categoryId of
                      Inl e \<Rightarrow> (Inl e, st)
                    | Inr st1 \<Rightarrow>
                        (case category_delete st1 categoryId of
                           Inl e \<Rightarrow> (Inl e, st1)
                         | Inr st2 \<Rightarrow> (Inr no_content, st2)))))"

definition auth_get_currency :: "auth_user store \<Rightarrow> auth_user outcome" where
  "auth_get_currency st = (Inr (reply 200 (JArr (map json_of_currency (currencies st)))), st)"

definition auth_post_currency :: "auth_user store \<Rightarrow> jsobject \<Rightarrow> auth_user outcome" where
  "auth_post_currency st b =
     (let code = b ''code''; name = b ''name'' in
      if \<not> truthy code \<or> \<not> is_string code
      then (Inr (message 400 ''Field 'code' is required''), st)
      else if \<not> truthy name \<or> \<not> is_string name
      then (Inr (message 400 ''Field 'name' is required''), st)
      else
        (case currency_create st (trim (string_of code)) (trim (string_of name)) of
           Inl e \<Rightarrow> (Inl e, st)
         | Inr (c, st') \<Rightarrow> (Inr (reply 201 (json_of_currency c)), st')))"

text \<open>\<open>DELETE /currency/:id\<close> does not count the records first.\<close>

definition auth_delete_currency :: "auth_user store \<Rightarrow> string \<Rightarrow> auth_user outcome" where
  "auth_delete_currency st id_param =
     (let currencyId = Number_str id_param in
      if isNaN currencyId then (Inr (message 400 ''Invalid currency id''), st)
      else
        (case currency_findUnique st currencyId of
           Inl e \<Rightarrow> (Inl e, st)
         | Inr None \<Rightarrow> (Inr (message 404 ''Currency not found''), st)
         | Inr (Some existing) \<Rightarrow>
             (case currency_delete st currencyId of
                Inl e \<Rightarrow> (Inl e, st)
              | Inr st' \<Rightarrow> (Inr no_content, st'))))"

definition auth_post_record :: "env \<Rightarrow> auth_user store \<Rightarrow> jsobject \<Rightarrow> auth_user outcome" where
  "auth_post_record ev st b =
     (let userId = b ''userId''; categoryId = b ''categoryId'';
          amount = b ''amount''; currencyId = b ''currencyId'';
          parsedUserId = Number_js userId;
          parsedCategoryId = Number_js categoryId;
          parsedAmount = Number_js amount in
      if isNaN parsedUserId \<or> isNaN parsedCategoryId \<or> isNaN parsedAmount
      then (Inr (message 400 ''Fields 'userId', 'categoryId' and 'amount' must be numbers''), st)
      else
        (case user_findUnique st parsedUserId of
           Inl e \<Rightarrow> (Inl e, st)
         | Inr None \<Rightarrow> (Inr (message 400 ''User does not exist''), st)
         | Inr (Some u) \<Rightarrow>
             (case category_findUnique st parsedCategoryId of
                Inl e \<Rightarrow> (Inl e, st)
              | Inr None \<Rightarrow> (Inr (message 400 ''Category does not exist''), st)
              | Inr (Some category) \<Rightarrow>
                  (case
                     (if currencyId \<noteq> None \<and> currencyId \<noteq> Some JNull then
                        let parsedCurrencyId = Number_js currencyId in
                        if isNaN parsedCurrencyId
                        then Inl (Inr (message 400 ''Invalid currency id''))
                        else
                          (case currency_findUnique st parsedCurrencyId of
                             Inl e \<Rightarrow> Inl (Inl e)
                           | Inr None \<Rightarrow> Inl (Inr (message 400 ''Currency does not exist''))
                           | Inr (Some c) \<Rightarrow> Inr parsedCurrencyId)
                      else if falsy_id (u_defaultCurrencyId u) then
                        Inl (Inr (message 400
                          ''User has no default currency and no currencyId was provided''))
                      else Inr (id_number (u_defaultCurrencyId u)))
                   of
                     Inl early \<Rightarrow> (early, st)
                   | Inr finalCurrencyId \<Rightarrow>
                       (case record_create st (now ev) parsedUserId parsedCategoryId
                               finalCurrencyId parsedAmount of
                          Inl e \<Rightarrow> (Inl e, st)
                        | Inr (r, st') \<Rightarrow> (Inr (reply 201 (json_of_record r)), st'))))))"

text \<open>The two reads of records include the whole user row.\<close>

definition auth_get_record :: "auth_user store \<Rightarrow> string \<Rightarrow> auth_user outcome" where
  "auth_get_record st recordId_param =
     (let recordId = Number_str recordId_param in
      if isNaN recordId then (Inr (message 400 ''Invalid record id''), st)
      else
        (case record_findUnique st recordId of
           Inl e \<Rightarrow> (Inl e, st)
         | Inr None \<Rightarrow> (Inr (message 404 ''Record not found''), st)
         | Inr (Some r) \<Rightarrow>
             (Inr (reply 200 (json_of_record_include st auth_user_fields r)), st)))"

text \<open>
  \<open>GET /record\<close> reads the query parameters \<open>userId\<close> and \<open>categoryId\<close>; one that is
  present, even empty, is a filter, and none is required.
\<close>

definition auth_get_records ::
  "auth_user store \<Rightarrow> (string \<rightharpoonup> string) \<Rightarrow> auth_user outcome" where
  "auth_get_records st query =
     (let userId = query ''userId''; categoryId = query ''categoryId'' in
      (case
         (case userId of
            None \<Rightarrow> Inr None
          | Some p \<Rightarrow>
              if isNaN (Number_str p) then Inl (message 400 ''Invalid userId'')
              else Inr (Some (Number_str p)))
       of
         Inl early \<Rightarrow> (Inr early, st)
       | Inr where_userId \<Rightarrow>
           (case
              (case categoryId of
                 None \<Rightarrow> Inr None
               | Some p \<Rightarrow>
                   if isNaN (Number_str p) then Inl (message 400 ''Invalid categoryId'')
                   else Inr (Some (Number_str p)))
            of
              Inl early \<Rightarrow> (Inr early, st)
            | Inr where_categoryId \<Rightarrow>
                (case record_findMany st
                        \<lparr>w_userId = where_userId, w_categoryId = where_categoryId\<rparr> of
                   Inl e \<Rightarrow> (Inl e, st)
                 | Inr rs \<Rightarrow>
                     (Inr (reply 200
                        (JArr (map (json_of_record_include st auth_user_fields) rs))),
                      st)))))"

definition auth_delete_record :: "auth_user store \<Rightarrow> string \<Rightarrow> auth_user outcome" where
  "auth_delete_record st recordId_param =
     (let recordId = Number_str recordId_param in
      if isNaN recordId then (Inr (message 400 ''Invalid record id''), st)
      else
        (case record_findUnique st recordId of
           Inl e \<Rightarrow> (Inl e, st)
         | Inr None \<Rightarrow> (Inr (message 404 ''Record not found''), st)
         | Inr (Some existing) \<Rightarrow>
             (case record_delete st recordId of
                Inl e \<Rightarrow> (Inl e, st)
              | Inr st' \<Rightarrow> (Inr no_content, st'))))"

subsection \<open>The router\<close>

text \<open>
  The three public routes are registered before the middleware, the other routes after
  it, and no handler passes a request on. So a request that the framework matches to a
  public route is answered there; every other request goes through the middleware, and
  then to the route it matches. A request that reaches the end unanswered gets the 404
  of the framework.
\<close>

definition not_found :: response where
  "not_found = \<lparr>status = 404, body = None\<rparr>"

definition route_of :: "env \<Rightarrow> ('a request_scheme) \<Rightarrow> route" where
  "route_of ev req = match_route ev (req_method req) (req_path req)"

definition is_public :: "env \<Rightarrow> request \<Rightarrow> bool" where
  "is_public ev req \<longleftrightarrow>
     route_of ev req = Get_healthcheck \<or> route_of ev req = Post_user \<or>
     route_of ev req = Post_auth_login"

definition protected_routes ::
  "env \<Rightarrow> auth_user store \<Rightarrow> auth_request \<Rightarrow> auth_user outcome" where
  "protected_routes ev st req =
     (case route_of ev req of
        Get_user userId \<Rightarrow> auth_get_user st userId
      | Get_users \<Rightarrow> auth_get_users st
      | Patch_user_currency userId \<Rightarrow> auth_patch_user_currency st userId (req_body req)
      | Delete_user userId \<Rightarrow> auth_delete_user st userId
      | Get_category \<Rightarrow> auth_get_category st
      | Post_category \<Rightarrow> auth_post_category st (req_body req)
      | Delete_category \<Rightarrow> auth_delete_category st (req_query req ''id'')
      | Get_currency \<Rightarrow> auth_get_currency st
      | Post_currency \<Rightarrow> auth_post_currency st (req_body req)
      | Delete_currency currencyId \<Rightarrow> auth_delete_currency st currencyId
      | Post_record \<Rightarrow> auth_post_record ev st (req_body req)
      | Get_record recordId \<Rightarrow> auth_get_record st recordId
      | Get_records \<Rightarrow> auth_get_records st (req_query req)
      | Delete_record recordId \<Rightarrow> auth_delete_record st recordId
      | _ \<Rightarrow> (Inr not_found, st))"

definition auth_router :: "env \<Rightarrow> auth_user store \<Rightarrow> request \<Rightarrow> response \<times> auth_user store"
  where
  "auth_router ev st req =
     (case route_of ev req of
        Get_healthcheck \<Rightarrow> (healthcheck ev, st)
      | Post_user \<Rightarrow> respond (auth_post_user ev st (req_body req))
      | Post_auth_login \<Rightarrow> respond (auth_login ev st (req_body req))
      | _ \<Rightarrow>
        (case authMiddleware ev req of
           Inl resp \<Rightarrow> (resp, st)
         | Inr req' \<Rightarrow> respond (protected_routes ev st req')))"

section \<open>The routes on arrays in memory\<close>

text \<open>
  The first router keeps users, categories and records in three arrays of the module and
  numbers them with three counters. Only the creation of a category is needed below.
\<close>

record mem_user =
  mu_id :: int
  mu_name :: string

record mem_record =
  mr_id :: int
  mr_userId :: rat
  mr_categoryId :: rat
  mr_amount :: rat
  mr_createdAt :: string

record mem_state =
  mem_users :: "mem_user list"
  mem_categories :: "category list"
  mem_records :: "mem_record list"
  nextUserId :: int
  nextCategoryId :: int
  nextRecordId :: int

definition mem_post_category :: "mem_state \<Rightarrow> jsobject \<Rightarrow> response \<times> mem_state" where
  "mem_post_category st b =
     (let name = b ''name'' in
      if \<not> truthy name \<or> \<not> is_string name
      then (message 400 ''Field 'name' is required'', st)
      else
        let newCategory = \<lparr>cat_id = nextCategoryId st, cat_name = trim (string_of name)\<rparr>
        in (reply 201 (json_of_category newCategory),
            st\<lparr>mem_categories := mem_categories st @ [newCategory],
               nextCategoryId := nextCategoryId st + 1\<rparr>))"

section \<open>Predicates used in the statements\<close>

text \<open>A JSON value has a member named \<open>k\<close>, at any depth.\<close>

primrec has_field :: "string \<Rightarrow> json \<Rightarrow> bool" where
  "has_field k JNull = False"
| "has_field k (JBool b) = False"
| "has_field k (JNum r) = False"
| "has_field k (JStr s) = False"
| "has_field k (JArr xs) = list_ex (\<lambda>b. b) (map (has_field k) xs)"
| "has_field k (JObj fs) =
     list_ex (\<lambda>f. fst f = k \<or> snd f) (map (map_prod (\<lambda>n. n) (has_field k)) fs)"

text \<open>
  The states the database admits: primary keys are distinct and were drawn from the
  sequences, which start at 1; every foreign key refers to a row; currency codes are
  distinct.
\<close>

definition store_ok :: "('a user_scheme) store \<Rightarrow> bool" where
  "store_ok st \<longleftrightarrow>
     distinct (map u_id (users st)) \<and>
     distinct (map cat_id (categories st)) \<and>
     distinct (map cur_id (currencies st)) \<and>
     distinct (map rec_id (records st)) \<and>
     distinct (map cur_code (currencies st)) \<and>
     1 \<le> user_seq st \<and> 1 \<le> category_seq st \<and> 1 \<le> currency_seq st \<and> 1 \<le> record_seq st \<and>
     (\<forall>u \<in> set (users st). 1 \<le> u_id u \<and> u_id u < user_seq st) \<and>
     (\<forall>c \<in> set (categories st). 1 \<le> cat_id c \<and> cat_id c < category_seq st) \<and>
     (\<forall>c \<in> set (currencies st). 1 \<le> cur_id c \<and> cur_id c < currency_seq st) \<and>
     (\<forall>r \<in> set (records st). 1 \<le> rec_id r \<and> rec_id r < record_seq st) \<and>
     (\<forall>u \<in> set (users st).
        (case u_defaultCurrencyId u of
           None \<Rightarrow> True
         | Some d \<Rightarrow> (\<exists>c \<in> set (currencies st). cur_id c = d))) \<and>
     (\<forall>r \<in> set (records st).
        (\<exists>u \<in> set (users st). u_id u = rec_userId r) \<and>
        (\<exists>c \<in> set (categories st). cat_id c = rec_categoryId r) \<and>
        (\<exists>c \<in> set (currencies st). cur_id c = rec_currencyId r))"

text \<open>The unique index on \<open>email\<close> of the second schema.\<close>

definition emails_ok :: "auth_user store \<Rightarrow> bool" where
  "emails_ok st \<longleftrightarrow> distinct (map u_email (users st))"



section \<open>Example states\<close>

text \<open>A store of the second schema with one user, one category, one currency and one
  record that refers to all three.\<close>

definition example_auth_store :: "auth_user store" where
  "example_auth_store =
     \<lparr>users = [\<lparr>u_id = 1, u_name = ''Alice'', u_defaultCurrencyId = Some 1,
                 u_email = ''alice@example.com'', u_passwordHash = ''$2b$10$digest''\<rparr>],
      categories = [\<lparr>cat_id = 1, cat_name = ''Food''\<rparr>],
      currencies = [\<lparr>cur_id = 1, cur_code = ''UAH'', cur_name = ''Hryvnia''\<rparr>],
      records = [\<lparr>rec_id = 1, rec_userId = 1, rec_categoryId = 1, rec_currencyId = 1,
                   rec_amount = 50, rec_createdAt = ''2025-12-10T09:00:00.000Z''\<rparr>],
      user_seq = 2, category_seq = 2, currency_seq = 2, record_seq = 2\<rparr>"

text \<open>The same rows in the first schema.\<close>

definition example_store :: "user store" where
  "example_store =
     \<lparr>users = [\<lparr>u_id = 1, u_name = ''Alice'', u_defaultCurrencyId = Some 1\<rparr>],
      categories = [\<lparr>cat_id = 1, cat_name = ''Food''\<rparr>],
      currencies = [\<lparr>cur_id = 1, cur_code = ''UAH'', cur_name = ''Hryvnia''\<rparr>],
      records = [\<lparr>rec_id = 1, rec_userId = 1, rec_categoryId = 1, rec_currencyId = 1,
                   rec_amount = 50, rec_createdAt = ''2025-12-10T09:00:00.000Z''\<rparr>],
      user_seq = 2, category_seq = 2, currency_seq = 2, record_seq = 2\<rparr>"

text \<open>The empty database after the migrations, and the module state at start.\<close>

definition empty_store :: "'u store" where
  "empty_store =
     \<lparr>users = [], categories = [], currencies = [], records = [],
      user_seq = 1, category_seq = 1, currency_seq = 1, record_seq = 1\<rparr>"

definition mem_initial :: mem_state where
  "mem_initial =
     \<lparr>mem_users = [], mem_categories = [], mem_records = [],
      nextUserId = 1, nextCategoryId = 1, nextRecordId = 1\<rparr>"

text \<open>
  The matching of the examples, as a router made without options does it: the letters of
  a pattern match without regard to case, a parameter is one piece that is not empty, and
  one \<open>/\<close> at the end of the path is ignored. The paths of the examples have no
  escapes, so a parameter is the piece as it is written.
\<close>

definition strip_slash :: "string list \<Rightarrow> string list" where
  "strip_slash p = (if p \<noteq> [] \<and> last p = [] then butlast p else p)"

definition example_match :: "http_method \<Rightarrow> string list \<Rightarrow> route" where
  "example_match m p =
     (case strip_slash p of
        [a] \<Rightarrow>
          if m = GET \<and> toLowerCase a = ''healthcheck'' then Get_healthcheck
          else if m = POST \<and> toLowerCase a = ''user'' then Post_user
          else if m = GET \<and> toLowerCase a = ''users'' then Get_users
          else if m = GET \<and> toLowerCase a = ''category'' then Get_category
          else if m = POST \<and> toLowerCase a = ''category'' then Post_category
          else if m = DELETE \<and> toLowerCase a = ''category'' then Delete_category
          else if m = GET \<and> toLowerCase a = ''currency'' then Get_currency
          else if m = POST \<and> toLowerCase a = ''currency'' then Post_currency
          else if m = POST \<and> toLowerCase a = ''record'' then Post_record
          else if m = GET \<and> toLowerCase a = ''record'' then Get_records
          else No_route
      | [a, x] \<Rightarrow>
          if m = POST \<and> toLowerCase a = ''auth'' \<and> toLowerCase x = ''login''
          then Post_auth_login
          else if x = [] then No_route
          else if m = GET \<and> toLowerCase a = ''user'' then Get_user x
          else if m = DELETE \<and> toLowerCase a = ''user'' then Delete_user x
          else if m = DELETE \<and> toLowerCase a = ''currency'' then Delete_currency x
          else if m = GET \<and> toLowerCase a = ''record'' then Get_record x
          else if m = DELETE \<and> toLowerCase a = ''record'' then Delete_record x
          else No_route
      | [a, x, c] \<Rightarrow>
          if x \<noteq> [] \<and> m = PATCH \<and> toLowerCase a = ''user'' \<and> toLowerCase c = ''currency''
          then Patch_user_currency x
          else No_route
      | _ \<Rightarrow> No_route)"

text \<open>An environment for the examples: a stand-in for the hash, and a verifier that
  accepts one token for user 1, reports one token as expired and refuses the rest.\<close>

definition example_env :: env where
  "example_env =
     \<lparr>bcrypt_hash = (\<lambda>pw rounds. ''$2b$10$'' @ pw),
      bcrypt_compare = (\<lambda>pw h. h = ''$2b$10$'' @ pw),
      jwt_sign = (\<lambda>uid secret expires. ''valid.jwt.token''),
      jwt_verify = (\<lambda>token secret.
         if token = ''valid.jwt.token'' then Payload (Some (JNum 1))
         else if token = ''old.jwt.token'' then Throws ''TokenExpiredError''
         else Throws ''JsonWebTokenError''),
      match_route = example_match,
      JWT_SECRET = ''dev-secret'',
      now = ''2025-12-10T10:00:00.000Z''\<rparr>"

text \<open>A body of \<open>POST /record\<close> without \<open>currencyId\<close>.\<close>

definition example_record_body :: jsobject where
  "example_record_body =
     [''userId'' \<mapsto> JNum 1, ''categoryId'' \<mapsto> JNum 1, ''amount'' \<mapsto> JNum 50]"

text \<open>\<open>GET /users\<close> with a given \<open>Authorization\<close> header.\<close>

definition get_users_request :: "string option \<Rightarrow> request" where
  "get_users_request h =
     \<lparr>req_method = GET, req_path = [''users''], req_authorization = h,
      req_query = Map.empty, req_body = Map.empty\<rparr>"


definition example_signup_body :: jsobject where
  "example_signup_body =
     [''name'' \<mapsto> JStr ''Bob '', ''email'' \<mapsto> JStr '' Bob@Example.COM '',
      ''password'' \<mapsto> JStr ''secret1'']"

text \<open>A request with the token that the example environment accepts, and no body.\<close>

definition authorised_request ::
  "http_method \<Rightarrow> string list \<Rightarrow> (string \<rightharpoonup> string) \<Rightarrow> request" where
  "authorised_request m p q =
     \<lparr>req_method = m, req_path = p, req_authorization = Some ''Bearer valid.jwt.token'',
      req_query = q, req_body = Map.empty\<rparr>"

section \<open>Rows and states named in the statements\<close>

text \<open>The row that \<open>record.create\<close> inserts, and the store with that row.\<close>

definition new_record ::
  "'u store \<Rightarrow> string \<Rightarrow> int \<Rightarrow> int \<Rightarrow> int \<Rightarrow> rat \<Rightarrow> expense_record" where
  "new_record st t uid cid k a =
     \<lparr>rec_id = record_seq st, rec_userId = uid, rec_categoryId = cid, rec_currencyId = k,
      rec_amount = a, rec_createdAt = t\<rparr>"

definition with_record :: "'u store \<Rightarrow> expense_record \<Rightarrow> 'u store" where
  "with_record st r = st\<lparr>records := records st @ [r], record_seq := record_seq st + 1\<rparr>"

text \<open>The store in which user \<open>uid\<close> has default currency \<open>k\<close>.\<close>

definition with_default :: "('a user_scheme) store \<Rightarrow> int \<Rightarrow> int \<Rightarrow> ('a user_scheme) store" where
  "with_default st uid k =
     st\<lparr>users := map (\<lambda>x. if u_id x = uid then x\<lparr>u_defaultCurrencyId := Some k\<rparr> else x)
                    (users st)\<rparr>"



text \<open>The row that signing up inserts: the trimmed name, the normalised email, the hash.\<close>

definition new_auth_user :: "auth_user store \<Rightarrow> string \<Rightarrow> string \<Rightarrow> string \<Rightarrow> auth_user" where
  "new_auth_user st n e h =
     \<lparr>u_id = user_seq st, u_name = trim n, u_defaultCurrencyId = None,
      u_email = toLowerCase (trim e), u_passwordHash = h\<rparr>"

definition with_user :: "auth_user store \<Rightarrow> auth_user \<Rightarrow> auth_user store" where
  "with_user st u = st\<lparr>users := users st @ [u], user_seq := user_seq st + 1\<rparr>"

section \<open>Basic facts\<close>

lemma int_arg_of_int [simp]: "int4 i \<Longrightarrow> int_arg (Num (of_int i)) = Inr i"
  by simp

lemma int4_1: "int4 1"
  by (simp add: int4_def)

lemma int4_2: "int4 2"
  by (simp add: int4_def)

lemma find_exists:
  "(\<exists>x \<in> set xs. P x) \<Longrightarrow> \<exists>y. find P xs = Some y \<and> P y \<and> y \<in> set xs"
  by (induction xs) auto

lemma find_absent: "\<not> (\<exists>x \<in> set xs. P x) \<Longrightarrow> find P xs = None"
  by (induction xs) auto

lemma example_auth_store_ok: "store_ok example_auth_store \<and> emails_ok example_auth_store"
  by (simp add: store_ok_def emails_ok_def example_auth_store_def)

lemma example_store_ok: "store_ok example_store"
  by (simp add: store_ok_def example_store_def)

text \<open>\<open>Number\<close> on some strings: integers, surrounding white space, the empty string, a
  fraction, an exponent, a hexadecimal literal, and strings that are not numbers.\<close>

lemma Number_str_1: "Number_str ''1'' = Num (of_int 1)"
  by code_simp

lemma Number_str_2: "Number_str ''2'' = Num (of_int 2)"
  by code_simp

lemma Number_str_examples:
  "Number_str ''42'' = Num 42"
  "Number_str '' 7 '' = Num 7"
  "Number_str [] = Num 0"
  "Number_str ''-3'' = Num (- 3)"
  "Number_str ''1.5'' = Num (3 / 2)"
  "Number_str ''1e2'' = Num 100"
  "Number_str ''0x1F'' = Num 31"
  "Number_str ''Infinity'' = PosInf"
  "Number_str ''abc'' = NaN"
  "Number_str ''12px'' = NaN"
  "Number_str ''1 2'' = NaN"
  by code_simp+

lemma Number_js_examples:
  "Number_js None = NaN"
  "Number_js (Some JNull) = Num 0"
  "Number_js (Some (JBool True)) = Num 1"
  "Number_js (Some (JNum 5)) = Num 5"
  "Number_js (Some (JStr ''5'')) = Num 5"
  "Number_js (Some (JArr [JStr ''5''])) = Num 5"
  "Number_js (Some (JArr [JNum 1, JNum 2])) = NaN"
  "Number_js (Some (JObj [])) = NaN"
  by code_simp+

lemma int_arg_examples:
  "int_arg (Num 3) = Inr 3"
  "int_arg (Num 2147483647) = Inr 2147483647"
  "int_arg (Num 2147483648) = Inl ValidationError"
  "int_arg (Num 99999999999) = Inl ValidationError"
  by code_simp+

section \<open>The states the database admits\<close>

text \<open>
  The empty database is admitted, and every write of the client that succeeds leads from
  an admitted state to an admitted state: the keys stay distinct and below the sequences,
  and the foreign keys keep referring to rows.
\<close>

lemma empty_store_ok: "store_ok empty_store"
  by (simp add: store_ok_def empty_store_def)


lemma store_okD:
  assumes "store_ok st"
  shows "distinct (map u_id (users st))"
    and "distinct (map cat_id (categories st))"
    and "distinct (map cur_id (currencies st))"
    and "distinct (map rec_id (records st))"
    and "distinct (map cur_code (currencies st))"
    and "1 \<le> user_seq st" and "1 \<le> category_seq st"
    and "1 \<le> currency_seq st" and "1 \<le> record_seq st"
    and "\<And>u. u \<in> set (users st) \<Longrightarrow> 1 \<le> u_id u \<and> u_id u < user_seq st"
    and "\<And>c. c \<in> set (categories st) \<Longrightarrow> 1 \<le> cat_id c \<and> cat_id c < category_seq st"
    and "\<And>c. c \<in> set (currencies st) \<Longrightarrow> 1 \<le> cur_id c \<and> cur_id c < currency_seq st"
    and "\<And>r. r \<in> set (records st) \<Longrightarrow> 1 \<le> rec_id r \<and> rec_id r < record_seq st"
    and "\<And>u d. u \<in> set (users st) \<Longrightarrow> u_defaultCurrencyId u = Some d \<Longrightarrow>
           \<exists>c \<in> set (currencies st). cur_id c = d"
    and "\<And>r. r \<in> set (records st) \<Longrightarrow>
           (\<exists>u \<in> set (users st). u_id u = rec_userId r) \<and>
           (\<exists>c \<in> set (categories st). cat_id c = rec_categoryId r) \<and>
           (\<exists>c \<in> set (currencies st). cur_id c = rec_currencyId r)"
  using assms unfolding store_ok_def by (simp_all split: option.splits)

lemma user_create_ok:
  assumes "store_ok st" and "user_create st nm = Inr (u, st')"
  shows "store_ok st'"
proof -
  note d = store_okD[OF assms(1)]
  have st': "st' = st\<lparr>users := users st @
                 [\<lparr>u_id = user_seq st, u_name = nm, u_defaultCurrencyId = None\<rparr>],
               user_seq := user_seq st + 1\<rparr>"
    using assms(2) by (auto simp: user_create_def Let_def)
  show ?thesis
    unfolding store_ok_def st'
    by (intro conjI; use d in \<open>force split: option.splits\<close>)
qed

lemma user_create_auth_ok:
  assumes "store_ok st" and "user_create_auth st nm em ph = Inr (u, st')"
  shows "store_ok st'"
proof -
  note d = store_okD[OF assms(1)]
  have st': "st' = st\<lparr>users := users st @
                 [\<lparr>u_id = user_seq st, u_name = nm, u_defaultCurrencyId = None,
                   u_email = em, u_passwordHash = ph\<rparr>],
               user_seq := user_seq st + 1\<rparr>"
    using assms(2) by (auto simp: user_create_auth_def Let_def split: if_splits)
  show ?thesis
    unfolding store_ok_def st'
    by (intro conjI; use d in \<open>force split: option.splits\<close>)
qed

lemma user_create_auth_emails_ok:
  assumes "emails_ok st" and "user_create_auth st nm em ph = Inr (u, st')"
  shows "emails_ok st'"
  using assms
  by (auto simp: emails_ok_def user_create_auth_def Let_def split: if_splits)

lemma category_create_ok:
  assumes "store_ok st" and "category_create st nm = Inr (c, st')"
  shows "store_ok st'"
proof -
  note d = store_okD[OF assms(1)]
  have st': "st' = st\<lparr>categories := categories st @
                 [\<lparr>cat_id = category_seq st, cat_name = nm\<rparr>],
               category_seq := category_seq st + 1\<rparr>"
    using assms(2) by (auto simp: category_create_def Let_def)
  show ?thesis
    unfolding store_ok_def st'
    by (intro conjI; use d in \<open>force split: option.splits\<close>)
qed

lemma currency_create_ok:
  assumes "store_ok st" and "currency_create st cd nm = Inr (c, st')"
  shows "store_ok st'"
proof -
  note d = store_okD[OF assms(1)]
  have fresh: "\<not> (\<exists>c \<in> set (currencies st). cur_code c = cd)"
    and st': "st' = st\<lparr>currencies := currencies st @
                 [\<lparr>cur_id = currency_seq st, cur_code = cd, cur_name = nm\<rparr>],
               currency_seq := currency_seq st + 1\<rparr>"
    using assms(2) by (auto simp: currency_create_def Let_def split: if_splits)
  show ?thesis
    unfolding store_ok_def st'
    by (intro conjI; use d fresh in \<open>force split: option.splits\<close>)
qed

lemma record_delete_ok:
  assumes "store_ok st" and "record_delete st n = Inr st'"
  shows "store_ok st'"
proof -
  note d = store_okD[OF assms(1)]
  obtain i where st': "st' = st\<lparr>records := filter (\<lambda>r. rec_id r \<noteq> i) (records st)\<rparr>"
    using assms(2) by (auto simp: record_delete_def split: sum.splits if_splits)
  show ?thesis
    unfolding store_ok_def st'
    by (intro conjI; use d in \<open>force simp: distinct_map_filter split: option.splits\<close>)
qed

lemma record_deleteMany_userId_ok:
  assumes "store_ok st" and "record_deleteMany_userId st n = Inr st'"
  shows "store_ok st'"
proof -
  note d = store_okD[OF assms(1)]
  obtain i where st': "st' = st\<lparr>records := filter (\<lambda>r. rec_userId r \<noteq> i) (records st)\<rparr>"
    using assms(2) by (auto simp: record_deleteMany_userId_def split: sum.splits)
  show ?thesis
    unfolding store_ok_def st'
    by (intro conjI; use d in \<open>force simp: distinct_map_filter split: option.splits\<close>)
qed

lemma record_deleteMany_categoryId_ok:
  assumes "store_ok st" and "record_deleteMany_categoryId st n = Inr st'"
  shows "store_ok st'"
proof -
  note d = store_okD[OF assms(1)]
  obtain i where st': "st' = st\<lparr>records := filter (\<lambda>r. rec_categoryId r \<noteq> i) (records st)\<rparr>"
    using assms(2) by (auto simp: record_deleteMany_categoryId_def split: sum.splits)
  show ?thesis
    unfolding store_ok_def st'
    by (intro conjI; use d in \<open>force simp: distinct_map_filter split: option.splits\<close>)
qed

lemma user_delete_ok:
  assumes "store_ok st" and "user_delete st n = Inr st'"
  shows "store_ok st'"
proof -
  note d = store_okD[OF assms(1)]
  obtain i where free: "\<And>r. r \<in> set (records st) \<Longrightarrow> rec_userId r \<noteq> i"
    and st': "st' = st\<lparr>users := filter (\<lambda>u. u_id u \<noteq> i) (users st)\<rparr>"
    using assms(2) by (auto simp: user_delete_def split: sum.splits if_splits)
  have fk: "\<And>r. r \<in> set (records st) \<Longrightarrow>
      \<exists>u \<in> set (filter (\<lambda>u. u_id u \<noteq> i) (users st)). u_id u = rec_userId r"
  proof -
    fix r assume r: "r \<in> set (records st)"
    then obtain u where "u \<in> set (users st)" "u_id u = rec_userId r" using d(15) by blast
    moreover have "rec_userId r \<noteq> i" using free r by blast
    ultimately show "\<exists>u \<in> set (filter (\<lambda>u. u_id u \<noteq> i) (users st)). u_id u = rec_userId r"
      by auto
  qed
  show ?thesis
    unfolding store_ok_def st'
    apply (intro conjI)
    subgoal using d(1) by (simp add: distinct_map_filter)
    subgoal using d(2) by simp
    subgoal using d(3) by simp
    subgoal using d(4) by simp
    subgoal using d(5) by simp
    subgoal using d(6) by simp
    subgoal using d(7) by simp
    subgoal using d(8) by simp
    subgoal using d(9) by simp
    subgoal using d(10) by simp
    subgoal using d(11) by simp
    subgoal using d(12) by simp
    subgoal using d(13) by simp
    subgoal using d(14) by (auto split: option.splits)
    subgoal using d(15) fk by simp
    done
qed

lemma in_image_ex: "y \<in> f ` A \<Longrightarrow> \<exists>x \<in> A. f x = y"
  by auto

lemma record_create_store_ok:
  assumes "store_ok st" and "record_create st t n1 n2 n3 n4 = Inr (r, st')"
  shows "store_ok st'"
proof -
  note d = store_okD[OF assms(1)]
  have "\<exists>ui ci ki a.
      (\<exists>u \<in> set (users st). u_id u = ui) \<and> (\<exists>c \<in> set (categories st). cat_id c = ci) \<and>
      (\<exists>c \<in> set (currencies st). cur_id c = ki) \<and>
      st' = st\<lparr>records := records st @
                 [\<lparr>rec_id = record_seq st, rec_userId = ui, rec_categoryId = ci,
                   rec_currencyId = ki, rec_amount = a, rec_createdAt = t\<rparr>],
               record_seq := record_seq st + 1\<rparr>"
    using assms(2)
    by (auto simp: record_create_def Let_def split: sum.splits if_splits)
  then obtain ui ci ki a where
    refs: "\<exists>u \<in> set (users st). u_id u = ui" "\<exists>c \<in> set (categories st). cat_id c = ci"
      "\<exists>c \<in> set (currencies st). cur_id c = ki"
    and st': "st' = st\<lparr>records := records st @
                 [\<lparr>rec_id = record_seq st, rec_userId = ui, rec_categoryId = ci,
                   rec_currencyId = ki, rec_amount = a, rec_createdAt = t\<rparr>],
               record_seq := record_seq st + 1\<rparr>"
    by blast
  show ?thesis
    unfolding store_ok_def st'
    by (intro conjI; use d refs in \<open>force split: option.splits\<close>)
qed

lemma category_delete_ok:
  assumes "store_ok st" and "category_delete st n = Inr st'"
  shows "store_ok st'"
proof -
  note d = store_okD[OF assms(1)]
  obtain i where free: "\<And>r. r \<in> set (records st) \<Longrightarrow> rec_categoryId r \<noteq> i"
    and st': "st' = st\<lparr>categories := filter (\<lambda>c. cat_id c \<noteq> i) (categories st)\<rparr>"
    using assms(2) by (auto simp: category_delete_def split: sum.splits if_splits)
  have fk: "\<And>r. r \<in> set (records st) \<Longrightarrow>
      \<exists>c \<in> set (filter (\<lambda>c. cat_id c \<noteq> i) (categories st)). cat_id c = rec_categoryId r"
  proof -
    fix r assume r: "r \<in> set (records st)"
    then obtain c where "c \<in> set (categories st)" "cat_id c = rec_categoryId r"
      using d(15) by blast
    moreover have "rec_categoryId r \<noteq> i" using free r by blast
    ultimately show
      "\<exists>c \<in> set (filter (\<lambda>c. cat_id c \<noteq> i) (categories st)). cat_id c = rec_categoryId r"
      by auto
  qed
  have f: "users st' = users st"
    "categories st' = filter (\<lambda>c. cat_id c \<noteq> i) (categories st)"
    "currencies st' = currencies st"
    "records st' = records st"
    "user_seq st' = user_seq st"
    "category_seq st' = category_seq st"
    "currency_seq st' = currency_seq st"
    "record_seq st' = record_seq st"
    unfolding st' by simp_all
  show ?thesis
    unfolding store_ok_def f
    apply (intro conjI)
    subgoal using d(1) by simp
    subgoal using d(2) by (simp add: distinct_map_filter)
    subgoal using d(3) by simp
    subgoal using d(4) by simp
    subgoal using d(5) by simp
    subgoal using d(6) by simp
    subgoal using d(7) by simp
    subgoal using d(8) by simp
    subgoal using d(9) by simp
    subgoal using d(10) by simp
    subgoal using d(11) by simp
    subgoal using d(12) by simp
    subgoal using d(13) by simp
    subgoal using d(14) by (auto split: option.splits)
    subgoal using d(15) fk by blast
    done
qed

lemma currency_delete_ok:
  assumes "store_ok st" and "currency_delete st n = Inr st'"
  shows "store_ok st'"
proof -
  note d = store_okD[OF assms(1)]
  let ?unset = "\<lambda>i u. if u_defaultCurrencyId u = Some i
                       then u\<lparr>u_defaultCurrencyId := None\<rparr> else u"
  obtain i where free: "\<And>r. r \<in> set (records st) \<Longrightarrow> rec_currencyId r \<noteq> i"
    and st': "st' = st\<lparr>currencies := filter (\<lambda>c. cur_id c \<noteq> i) (currencies st),
                       users := map (?unset i) (users st)\<rparr>"
    using assms(2) by (auto simp: currency_delete_def split: sum.splits if_splits)
  have ids: "map u_id (map (?unset i) (users st)) = map u_id (users st)"
    by (induction "users st") (auto simp: comp_def)
  have dist: "distinct (map u_id (map (?unset i) (users st)))"
    using d(1) by (simp only: ids)
  have ids': "u_id ` set (map (?unset i) (users st)) = u_id ` set (users st)"
    using ids by (metis set_map)
  have fk: "\<And>r. r \<in> set (records st) \<Longrightarrow>
      (\<exists>u \<in> set (map (?unset i) (users st)). u_id u = rec_userId r) \<and>
      (\<exists>c \<in> set (categories st). cat_id c = rec_categoryId r) \<and>
      (\<exists>c \<in> set (filter (\<lambda>c. cur_id c \<noteq> i) (currencies st)). cur_id c = rec_currencyId r)"
  proof -
    fix r assume r: "r \<in> set (records st)"
    have "rec_userId r \<in> u_id ` set (map (?unset i) (users st))"
      unfolding ids' using d(15)[OF r] by force
    then have "\<exists>u \<in> set (map (?unset i) (users st)). u_id u = rec_userId r"
      by (rule in_image_ex)
    moreover obtain c where "c \<in> set (currencies st)" "cur_id c = rec_currencyId r"
      using d(15)[OF r] by blast
    moreover have "rec_currencyId r \<noteq> i" using free r by blast
    ultimately show "(\<exists>u \<in> set (map (?unset i) (users st)). u_id u = rec_userId r) \<and>
      (\<exists>c \<in> set (categories st). cat_id c = rec_categoryId r) \<and>
      (\<exists>c \<in> set (filter (\<lambda>c. cur_id c \<noteq> i) (currencies st)). cur_id c = rec_currencyId r)"
      using d(15)[OF r] by auto
  qed
  have dflt: "\<And>u. u \<in> set (map (?unset i) (users st)) \<Longrightarrow>
      (case u_defaultCurrencyId u of None \<Rightarrow> True
       | Some k \<Rightarrow> \<exists>c \<in> set (filter (\<lambda>c. cur_id c \<noteq> i) (currencies st)). cur_id c = k)"
  proof -
    fix u assume "u \<in> set (map (?unset i) (users st))"
    then obtain v where v: "v \<in> set (users st)" and u: "u = ?unset i v" by auto
    show "(case u_defaultCurrencyId u of None \<Rightarrow> True
       | Some k \<Rightarrow> \<exists>c \<in> set (filter (\<lambda>c. cur_id c \<noteq> i) (currencies st)). cur_id c = k)"
    proof (cases "u_defaultCurrencyId v")
      case None
      then show ?thesis using u by simp
    next
      case (Some k)
      then obtain c where "c \<in> set (currencies st)" "cur_id c = k" using d(14)[OF v] by blast
      then show ?thesis using u Some by auto
    qed
  qed
  have bounds: "\<And>u. u \<in> set (map (?unset i) (users st)) \<Longrightarrow> 1 \<le> u_id u \<and> u_id u < user_seq st"
    using d(10) by auto
  have f: "users st' = map (?unset i) (users st)"
    "categories st' = categories st"
    "currencies st' = filter (\<lambda>c. cur_id c \<noteq> i) (currencies st)"
    "records st' = records st"
    "user_seq st' = user_seq st"
    "category_seq st' = category_seq st"
    "currency_seq st' = currency_seq st"
    "record_seq st' = record_seq st"
    unfolding st' by simp_all
  show ?thesis
    unfolding store_ok_def f
    apply (intro conjI)
    subgoal using dist .
    subgoal using d(2) by simp
    subgoal using d(3) by (simp add: distinct_map_filter)
    subgoal using d(4) by simp
    subgoal using d(5) by (simp add: distinct_map_filter)
    subgoal using d(6) by simp
    subgoal using d(7) by simp
    subgoal using d(8) by simp
    subgoal using d(9) by simp
    subgoal using bounds by blast
    subgoal using d(11) by simp
    subgoal using d(12) by simp
    subgoal using d(13) by simp
    subgoal using dflt by blast
    subgoal using fk by blast
    done
qed

lemma user_update_defaultCurrencyId_ok:
  assumes "store_ok st" and "user_update_defaultCurrencyId st n c = Inr (u, st')"
  shows "store_ok st'"
proof -
  note d = store_okD[OF assms(1)]
  let ?set = "\<lambda>i k x. if u_id x = i then x\<lparr>u_defaultCurrencyId := Some k\<rparr> else x"
  have "\<exists>i k. (\<exists>x \<in> set (currencies st). cur_id x = k) \<and>
      st' = st\<lparr>users := map (?set i k) (users st)\<rparr>"
    using assms(2)
    by (auto simp: user_update_defaultCurrencyId_def Let_def
        split: sum.splits option.splits if_splits)
  then obtain i k where k: "\<exists>x \<in> set (currencies st). cur_id x = k"
    and st': "st' = st\<lparr>users := map (?set i k) (users st)\<rparr>"
    by blast
  have ids: "map u_id (map (?set i k) (users st)) = map u_id (users st)"
    by (induction "users st") (auto simp: comp_def)
  have dist: "distinct (map u_id (map (?set i k) (users st)))"
    using d(1) by (simp only: ids)
  have ids': "u_id ` set (map (?set i k) (users st)) = u_id ` set (users st)"
    using ids by (metis set_map)
  have fk: "\<And>r. r \<in> set (records st) \<Longrightarrow>
      \<exists>u \<in> set (map (?set i k) (users st)). u_id u = rec_userId r"
  proof -
    fix r assume r: "r \<in> set (records st)"
    have "rec_userId r \<in> u_id ` set (map (?set i k) (users st))"
      unfolding ids' using d(15)[OF r] by force
    then show "\<exists>u \<in> set (map (?set i k) (users st)). u_id u = rec_userId r"
      by (rule in_image_ex)
  qed
  have dflt: "\<And>u. u \<in> set (map (?set i k) (users st)) \<Longrightarrow>
      (case u_defaultCurrencyId u of None \<Rightarrow> True
       | Some j \<Rightarrow> \<exists>c \<in> set (currencies st). cur_id c = j)"
  proof -
    fix u assume "u \<in> set (map (?set i k) (users st))"
    then obtain v where v: "v \<in> set (users st)" and u: "u = ?set i k v" by auto
    show "(case u_defaultCurrencyId u of None \<Rightarrow> True
       | Some j \<Rightarrow> \<exists>c \<in> set (currencies st). cur_id c = j)"
      using u k d(14)[OF v] by (auto split: option.splits)
  qed
  have bounds: "\<And>u. u \<in> set (map (?set i k) (users st)) \<Longrightarrow> 1 \<le> u_id u \<and> u_id u < user_seq st"
    using d(10) by auto
  have f: "users st' = map (?set i k) (users st)"
    "categories st' = categories st"
    "currencies st' = currencies st"
    "records st' = records st"
    "user_seq st' = user_seq st"
    "category_seq st' = category_seq st"
    "currency_seq st' = currency_seq st"
    "record_seq st' = record_seq st"
    unfolding st' by simp_all
  show ?thesis
    unfolding store_ok_def f
    apply (intro conjI)
    subgoal using dist .
    subgoal using d(2) by simp
    subgoal using d(3) by simp
    subgoal using d(4) by simp
    subgoal using d(5) by simp
    subgoal using d(6) by simp
    subgoal using d(7) by simp
    subgoal using d(8) by simp
    subgoal using d(9) by simp
    subgoal using bounds by blast
    subgoal using d(11) by simp
    subgoal using d(12) by simp
    subgoal using d(13) by simp
    subgoal using dflt by blast
    subgoal using d(15) fk by blast
    done
qed

text \<open>
  Hence every handler leads from an admitted state to an admitted state, whatever the
  request and whether it answers or throws; so does the router with authentication.
\<close>

lemma db_post_user_ok: "store_ok st \<Longrightarrow> store_ok (snd (db_post_user st b))"
  by (auto simp: db_post_user_def Let_def split: sum.splits dest: user_create_ok)

lemma db_delete_user_ok: "store_ok st \<Longrightarrow> store_ok (snd (db_delete_user st p))"
  by (auto simp: db_delete_user_def Let_def split: sum.splits option.splits
      dest: user_delete_ok record_deleteMany_userId_ok)

lemma db_patch_user_currency_ok:
  "store_ok st \<Longrightarrow> store_ok (snd (db_patch_user_currency st p b))"
  by (auto simp: db_patch_user_currency_def Let_def split: sum.splits option.splits
      dest: user_update_defaultCurrencyId_ok)

lemma db_post_category_ok: "store_ok st \<Longrightarrow> store_ok (snd (db_post_category st b))"
  by (auto simp: db_post_category_def Let_def split: sum.splits dest: category_create_ok)

lemma db_delete_category_ok: "store_ok st \<Longrightarrow> store_ok (snd (db_delete_category st q))"
  by (auto simp: db_delete_category_def Let_def split: sum.splits option.splits
      dest: category_delete_ok record_deleteMany_categoryId_ok)

lemma db_post_currency_ok: "store_ok st \<Longrightarrow> store_ok (snd (db_post_currency st b))"
  by (auto simp: db_post_currency_def Let_def split: sum.splits dest: currency_create_ok)

lemma db_delete_currency_ok: "store_ok st \<Longrightarrow> store_ok (snd (db_delete_currency st p))"
  by (auto simp: db_delete_currency_def Let_def split: sum.splits option.splits
      dest: currency_delete_ok)

lemma db_post_record_ok: "store_ok st \<Longrightarrow> store_ok (snd (db_post_record st t b))"
  by (auto simp: db_post_record_def Let_def split: sum.splits option.splits if_splits
      dest: record_create_store_ok)

lemma db_delete_record_ok: "store_ok st \<Longrightarrow> store_ok (snd (db_delete_record st p))"
  by (auto simp: db_delete_record_def Let_def split: sum.splits option.splits
      dest: record_delete_ok)

lemma auth_post_user_ok: "store_ok st \<Longrightarrow> store_ok (snd (auth_post_user ev st b))"
  by (auto simp: auth_post_user_def user_findUnique_email_def Let_def
      split: sum.splits option.splits dest: user_create_auth_ok)

lemma auth_post_user_emails_ok: "emails_ok st \<Longrightarrow> emails_ok (snd (auth_post_user ev st b))"
  by (auto simp: auth_post_user_def user_findUnique_email_def Let_def
      split: sum.splits option.splits dest: user_create_auth_emails_ok)

lemma auth_login_same: "snd (auth_login ev st b) = st"
  by (auto simp: auth_login_def user_findUnique_email_def Let_def split: option.splits)

lemma auth_patch_user_currency_ok:
  "store_ok st \<Longrightarrow> store_ok (snd (auth_patch_user_currency st p b))"
  by (auto simp: auth_patch_user_currency_def Let_def split: sum.splits option.splits
      dest: user_update_defaultCurrencyId_ok)

lemma auth_delete_user_ok: "store_ok st \<Longrightarrow> store_ok (snd (auth_delete_user st p))"
  by (auto simp: auth_delete_user_def Let_def split: sum.splits option.splits
      dest: user_delete_ok)

lemma auth_post_category_ok: "store_ok st \<Longrightarrow> store_ok (snd (auth_post_category st b))"
  by (auto simp: auth_post_category_def Let_def split: sum.splits dest: category_create_ok)

lemma auth_delete_category_ok: "store_ok st \<Longrightarrow> store_ok (snd (auth_delete_category st q))"
  by (auto simp: auth_delete_category_def Let_def split: sum.splits option.splits
      dest: category_delete_ok record_deleteMany_categoryId_ok)

lemma auth_post_currency_ok: "store_ok st \<Longrightarrow> store_ok (snd (auth_post_currency st b))"
  by (auto simp: auth_post_currency_def Let_def split: sum.splits dest: currency_create_ok)

lemma auth_delete_currency_ok: "store_ok st \<Longrightarrow> store_ok (snd (auth_delete_currency st p))"
  by (auto simp: auth_delete_currency_def Let_def split: sum.splits option.splits
      dest: currency_delete_ok)

lemma auth_post_record_ok: "store_ok st \<Longrightarrow> store_ok (snd (auth_post_record ev st b))"
  by (auto simp: auth_post_record_def Let_def split: sum.splits option.splits if_splits
      dest: record_create_store_ok)

lemma auth_delete_record_ok: "store_ok st \<Longrightarrow> store_ok (snd (auth_delete_record st p))"
  by (auto simp: auth_delete_record_def Let_def split: sum.splits option.splits
      dest: record_delete_ok)

lemma auth_reads_same:
  "snd (auth_get_user st p) = st" "snd (auth_get_users st) = st"
  "snd (auth_get_category st) = st" "snd (auth_get_currency st) = st"
  "snd (auth_get_record st p) = st" "snd (auth_get_records st q) = st"
  by (auto simp: auth_get_user_def auth_get_users_def auth_get_category_def
      auth_get_currency_def auth_get_record_def auth_get_records_def Let_def
      split: sum.splits option.splits)

lemma protected_routes_ok:
  assumes "store_ok st"
  shows "store_ok (snd (protected_routes ev st req))"
  using assms auth_patch_user_currency_ok auth_delete_user_ok auth_post_category_ok
    auth_delete_category_ok auth_post_currency_ok auth_delete_currency_ok
    auth_post_record_ok auth_delete_record_ok
  by (auto simp: protected_routes_def Let_def auth_reads_same split: route.splits)

lemma auth_router_ok:
  assumes "store_ok st"
  shows "store_ok (snd (auth_router ev st req))"
  using assms auth_post_user_ok[of st ev] protected_routes_ok[of st ev]
  by (auto simp: auth_router_def respond_def auth_login_same split: sum.splits route.splits)

section \<open>Deleting a currency\<close>

text \<open>
  Without authentication the handler counts the records of the currency first: a
  currency in use is kept and the answer is 400; a currency not in use is deleted, the
  users that had it as default lose it, and the answer is 204.
\<close>

lemma db_delete_currency_referenced:
  assumes "Number_str p = Num (of_int c)"
    and "\<exists>x \<in> set (currencies st). cur_id x = c"
    and "\<exists>r \<in> set (records st). rec_currencyId r = c"
    and "int4 c"
  shows "respond (db_delete_currency st p) =
           (message 400 ''Cannot delete currency: there are records using this currency'', st)"
proof -
  from assms(2) obtain x where "find (\<lambda>x. cur_id x = c) (currencies st) = Some x"
    using find_exists[of "currencies st" "\<lambda>x. cur_id x = c"] by blast
  moreover from assms(3) have "filter (\<lambda>r. rec_currencyId r = c) (records st) \<noteq> []"
    by (simp add: filter_empty_conv)
  ultimately show ?thesis
    using assms(1,4)
    by (simp add: db_delete_currency_def respond_def error_middleware_def
        currency_findUnique_def record_count_currency_def)
qed

lemma db_delete_currency_unreferenced:
  assumes "Number_str p = Num (of_int c)"
    and "\<exists>x \<in> set (currencies st). cur_id x = c"
    and "\<not> (\<exists>r \<in> set (records st). rec_currencyId r = c)"
    and "int4 c"
  shows "respond (db_delete_currency st p) =
           (no_content,
            st\<lparr>currencies := filter (\<lambda>x. cur_id x \<noteq> c) (currencies st),
               users := map (\<lambda>u. if u_defaultCurrencyId u = Some c
                                  then u\<lparr>u_defaultCurrencyId := None\<rparr> else u) (users st)\<rparr>)"
proof -
  from assms(2) obtain x where "find (\<lambda>x. cur_id x = c) (currencies st) = Some x"
    using find_exists[of "currencies st" "\<lambda>x. cur_id x = c"] by blast
  moreover from assms(3) have "filter (\<lambda>r. rec_currencyId r = c) (records st) = []"
    by (simp add: filter_empty_conv)
  ultimately show ?thesis
    using assms
    by (simp add: db_delete_currency_def respond_def error_middleware_def
        currency_findUnique_def record_count_currency_def currency_delete_def)
qed

text \<open>
  With authentication the handler deletes at once. For a currency in use the foreign key
  of \<open>Record\<close> refuses, the client throws, and the answer is 500; nothing is deleted.
\<close>

lemma auth_delete_currency_referenced:
  assumes "Number_str p = Num (of_int c)"
    and "\<exists>x \<in> set (currencies st). cur_id x = c"
    and "\<exists>r \<in> set (records st). rec_currencyId r = c"
  shows "respond (auth_delete_currency st p) = (message 500 ''Internal server error'', st)"
proof -
  from assms(2) obtain x where "find (\<lambda>x. cur_id x = c) (currencies st) = Some x"
    using find_exists[of "currencies st" "\<lambda>x. cur_id x = c"] by blast
  then show ?thesis
    using assms
    by (simp add: auth_delete_currency_def respond_def error_middleware_def
        currency_findUnique_def currency_delete_def)
qed

text \<open>
  C1. \<open>DELETE /currency/1\<close> on the example store, where record 1 uses currency 1. The
  handler without authentication answers 400 and keeps the store. The router with
  authentication, for a request with a valid token, answers 500, not 400, and keeps the
  store.
\<close>

theorem delete_currency_in_use:
  "respond (db_delete_currency example_store ''1'') =
     (message 400 ''Cannot delete currency: there are records using this currency'',
      example_store) \<and>
   auth_router example_env example_auth_store
       (authorised_request DELETE [''currency'', ''1''] Map.empty) =
     (message 500 ''Internal server error'', example_auth_store) \<and>
   status (message 500 ''Internal server error'') = 500"
  by code_simp

section \<open>Deleting a user\<close>

text \<open>
  Without authentication the handler deletes the records of the user, then the user, and
  answers 204; a list of the records of that user is empty afterwards.
\<close>

lemma db_delete_user_cascades:
  assumes "Number_str p = Num (of_int u)"
    and "\<exists>x \<in> set (users st). u_id x = u"
    and "int4 u"
  shows "respond (db_delete_user st p) =
           (no_content,
            st\<lparr>records := filter (\<lambda>r. rec_userId r \<noteq> u) (records st),
               users := filter (\<lambda>x. u_id x \<noteq> u) (users st)\<rparr>)"
proof -
  from assms(2) obtain x where "find (\<lambda>x. u_id x = u) (users st) = Some x"
    using find_exists[of "users st" "\<lambda>x. u_id x = u"] by blast
  then show ?thesis
    using assms
    by (simp add: db_delete_user_def respond_def error_middleware_def
        user_findUnique_def record_deleteMany_userId_def user_delete_def)
qed

lemma db_get_records_none_left:
  assumes "q \<noteq> []"
    and "Number_str q = Num (of_int u)"
    and "\<not> (\<exists>r \<in> set (records st). rec_userId r = u)"
    and "int4 u"
  shows "respond (db_get_records st [''user_id'' \<mapsto> q]) = (reply 200 (JArr []), st)"
proof -
  from assms(3) have "filter (\<lambda>r. rec_userId r = u) (records st) = []"
    by (simp add: filter_empty_conv)
  then show ?thesis
    using assms(1,2,4)
    by (simp add: db_get_records_def respond_def error_middleware_def record_findMany_def)
qed

lemma db_delete_user_then_list:
  assumes "q \<noteq> []" and "Number_str q = Num (of_int u)"
    and "Number_str p = Num (of_int u)"
    and "\<exists>x \<in> set (users st). u_id x = u"
    and "int4 u"
  shows "respond (db_get_records (snd (respond (db_delete_user st p))) [''user_id'' \<mapsto> q]) =
           (reply 200 (JArr []), snd (respond (db_delete_user st p)))"
  using assms by (simp add: db_delete_user_cascades db_get_records_none_left)

lemma auth_delete_user_with_records:
  assumes "Number_str p = Num (of_int u)"
    and "\<exists>x \<in> set (users st). u_id x = u"
    and "\<exists>r \<in> set (records st). rec_userId r = u"
  shows "respond (auth_delete_user st p) = (message 500 ''Internal server error'', st)"
proof -
  from assms(2) obtain x where "find (\<lambda>x. u_id x = u) (users st) = Some x"
    using find_exists[of "users st" "\<lambda>x. u_id x = u"] by blast
  then show ?thesis
    using assms
    by (simp add: auth_delete_user_def respond_def error_middleware_def
        user_findUnique_def user_delete_def)
qed

lemma auth_delete_user_without_records:
  assumes "Number_str p = Num (of_int u)"
    and "\<exists>x \<in> set (users st). u_id x = u"
    and "\<not> (\<exists>r \<in> set (records st). rec_userId r = u)"
    and "int4 u"
  shows "respond (auth_delete_user st p) =
           (no_content, st\<lparr>users := filter (\<lambda>x. u_id x \<noteq> u) (users st)\<rparr>)"
proof -
  from assms(2) obtain x where "find (\<lambda>x. u_id x = u) (users st) = Some x"
    using find_exists[of "users st" "\<lambda>x. u_id x = u"] by blast
  then show ?thesis
    using assms
    by (simp add: auth_delete_user_def respond_def error_middleware_def
        user_findUnique_def user_delete_def)
qed

text \<open>
  C2. \<open>DELETE /user/1\<close> on the example store, where record 1 belongs to user 1. The
  router with authentication, for a request with a valid token, answers 500 and deletes
  nothing; \<open>GET /record?user_id=1\<close> then still answers a list that is not empty. The
  handler without authentication answers 204 and leaves neither the user nor the record.
\<close>

theorem delete_user_with_records:
  "auth_router example_env example_auth_store
       (authorised_request DELETE [''user'', ''1''] Map.empty) =
     (message 500 ''Internal server error'', example_auth_store) \<and>
   users example_auth_store \<noteq> [] \<and> records example_auth_store \<noteq> [] \<and>
   auth_router example_env example_auth_store
       (authorised_request GET [''record''] [''user_id'' \<mapsto> ''1'']) =
     (reply 200 (JArr (map (json_of_record_include example_auth_store auth_user_fields)
        (records example_auth_store))), example_auth_store) \<and>
   respond (db_delete_user example_store ''1'') =
     (no_content, example_store\<lparr>records := [], users := []\<rparr>)"
  by code_simp

section \<open>Creating a category\<close>

text \<open>
  The three routers test the name before they trim it: a name that is a non-empty string
  is accepted and its trimmed form is stored; every other body is refused.
\<close>

lemma trim_all_ws: "list_all is_ws s \<Longrightarrow> trim s = []"
proof -
  assume "list_all is_ws s"
  then have h: "dropWhile is_ws s = []"
    by (induction s) auto
  show ?thesis by (simp only: trim_def h rev.simps dropWhile.simps)
qed

lemma truthy_string: "truthy v \<and> is_string v \<longleftrightarrow> (\<exists>s. v = Some (JStr s) \<and> s \<noteq> [])"
  by (cases v rule: truthy.cases) auto

lemma db_post_category_accepts:
  assumes "b ''name'' = Some (JStr s)" and "s \<noteq> []"
  shows "respond (db_post_category st b) =
           (reply 201 (json_of_category \<lparr>cat_id = category_seq st, cat_name = trim s\<rparr>),
            st\<lparr>categories := categories st @ [\<lparr>cat_id = category_seq st, cat_name = trim s\<rparr>],
               category_seq := category_seq st + 1\<rparr>)"
  using assms
  by (simp add: db_post_category_def respond_def error_middleware_def category_create_def Let_def)

lemma auth_post_category_accepts:
  assumes "b ''name'' = Some (JStr s)" and "s \<noteq> []"
  shows "respond (auth_post_category st b) =
           (reply 201 (json_of_category \<lparr>cat_id = category_seq st, cat_name = trim s\<rparr>),
            st\<lparr>categories := categories st @ [\<lparr>cat_id = category_seq st, cat_name = trim s\<rparr>],
               category_seq := category_seq st + 1\<rparr>)"
  using assms
  by (simp add: auth_post_category_def respond_def error_middleware_def category_create_def Let_def)

lemma mem_post_category_accepts:
  assumes "b ''name'' = Some (JStr s)" and "s \<noteq> []"
  shows "mem_post_category st b =
           (reply 201 (json_of_category \<lparr>cat_id = nextCategoryId st, cat_name = trim s\<rparr>),
            st\<lparr>mem_categories :=
                 mem_categories st @ [\<lparr>cat_id = nextCategoryId st, cat_name = trim s\<rparr>],
               nextCategoryId := nextCategoryId st + 1\<rparr>)"
  using assms by (simp add: mem_post_category_def Let_def)

lemma db_post_category_rejects:
  assumes "\<not> (\<exists>s. b ''name'' = Some (JStr s) \<and> s \<noteq> [])"
  shows "respond (db_post_category st b) = (message 400 ''Field 'name' is required'', st)"
  using assms truthy_string[of "b ''name''"]
  by (auto simp add: db_post_category_def respond_def error_middleware_def)

lemma auth_post_category_rejects:
  assumes "\<not> (\<exists>s. b ''name'' = Some (JStr s) \<and> s \<noteq> [])"
  shows "respond (auth_post_category st b) = (message 400 ''Field 'name' is required'', st)"
  using assms truthy_string[of "b ''name''"]
  by (auto simp add: auth_post_category_def respond_def error_middleware_def)

lemma mem_post_category_rejects:
  assumes "\<not> (\<exists>s. b ''name'' = Some (JStr s) \<and> s \<noteq> [])"
  shows "mem_post_category st b = (message 400 ''Field 'name' is required'', st)"
  using assms truthy_string[of "b ''name''"]
  by (auto simp add: mem_post_category_def)

text \<open>
  C9. \<open>POST /category\<close> with the name of two spaces, on the empty store: each of the
  three routers answers 201 and stores a category whose name is the empty string.
\<close>

theorem post_category_blank_name:
  "respond (db_post_category empty_store [''name'' \<mapsto> JStr ''  '']) =
     (reply 201 (JObj [(''id'', JNum 1), (''name'', JStr '''')]),
      empty_store\<lparr>categories := [\<lparr>cat_id = 1, cat_name = ''''\<rparr>], category_seq := 2\<rparr>) \<and>
   respond (auth_post_category empty_store [''name'' \<mapsto> JStr ''  '']) =
     (reply 201 (JObj [(''id'', JNum 1), (''name'', JStr '''')]),
      empty_store\<lparr>categories := [\<lparr>cat_id = 1, cat_name = ''''\<rparr>], category_seq := 2\<rparr>) \<and>
   mem_post_category mem_initial [''name'' \<mapsto> JStr ''  ''] =
     (reply 201 (JObj [(''id'', JNum 1), (''name'', JStr '''')]),
      mem_initial\<lparr>mem_categories := [\<lparr>cat_id = 1, cat_name = ''''\<rparr>], nextCategoryId := 2\<rparr>)"
  by code_simp

text \<open>The names in the table after that request.\<close>

theorem post_category_blank_name_stored:
  "map cat_name (categories (snd (respond
      (db_post_category (empty_store :: user store) [''name'' \<mapsto> JStr ''  ''])))) = ['''']"
  using post_category_blank_name by (simp add: empty_store_def)

section \<open>Creating a record\<close>

text \<open>
  Facts about the store first: a lookup by a distinct key finds the row, a default
  currency of an admitted state exists and is not 0, and an insert whose three references
  exist succeeds.
\<close>

lemma find_distinct:
  "distinct (map f xs) \<Longrightarrow> x \<in> set xs \<Longrightarrow> find (\<lambda>y. f y = f x) xs = Some x"
proof (induction xs)
  case Nil
  then show ?case by simp
next
  case (Cons a xs)
  then show ?case by (auto simp: image_iff)
qed

lemma store_ok_default:
  assumes "store_ok st" and "u \<in> set (users st)" and "u_defaultCurrencyId u = Some d"
  shows "(\<exists>c \<in> set (currencies st). cur_id c = d) \<and> d \<noteq> 0"
proof -
  from assms have ex: "\<exists>c \<in> set (currencies st). cur_id c = d"
    unfolding store_ok_def by (auto split: option.splits)
  moreover from assms(1) have "\<forall>c \<in> set (currencies st). 1 \<le> cur_id c"
    unfolding store_ok_def by blast
  ultimately show ?thesis by auto
qed

lemma record_create_ok:
  assumes "\<exists>u \<in> set (users st). u_id u = uid"
    and "\<exists>c \<in> set (categories st). cat_id c = cid"
    and "\<exists>c \<in> set (currencies st). cur_id c = k"
    and "int4 uid" and "int4 cid" and "int4 k"
  shows "record_create st t (Num (of_int uid)) (Num (of_int cid)) (Num (of_int k)) (Num a) =
           Inr (new_record st t uid cid k a, with_record st (new_record st t uid cid k a))"
  using assms by (simp add: record_create_def new_record_def with_record_def Let_def)

text \<open>
  Without authentication: the user, the category and the amount are JSON numbers, and a
  \<open>currencyId\<close> that is a number is the one supplied.
\<close>

lemma db_post_record_unknown_currency:
  assumes "b ''userId'' = Some (JNum (of_int uid))"
    and "b ''categoryId'' = Some (JNum (of_int cid))"
    and "b ''amount'' = Some (JNum a)"
    and "\<exists>u \<in> set (users st). u_id u = uid"
    and "\<exists>c \<in> set (categories st). cat_id c = cid"
    and "b ''currencyId'' = Some (JNum (of_int k))"
    and "\<not> (\<exists>c \<in> set (currencies st). cur_id c = k)"
    and i4: "int4 uid" "int4 cid" "int4 k"
  shows "respond (db_post_record st t b) = (message 400 ''Currency does not exist'', st)"
proof -
  obtain u where "find (\<lambda>u. u_id u = uid) (users st) = Some u"
    using find_exists[OF assms(4)] by blast
  moreover obtain c where "find (\<lambda>c. cat_id c = cid) (categories st) = Some c"
    using find_exists[OF assms(5)] by blast
  moreover have "find (\<lambda>c. cur_id c = k) (currencies st) = None"
    using find_absent[OF assms(7)] .
  ultimately show ?thesis
    using i4 assms(1,2,3,6)
    by (simp add: db_post_record_def respond_def error_middleware_def user_findUnique_def
        category_findUnique_def currency_findUnique_def)
qed

lemma db_post_record_given_currency:
  assumes "b ''userId'' = Some (JNum (of_int uid))"
    and "b ''categoryId'' = Some (JNum (of_int cid))"
    and "b ''amount'' = Some (JNum a)"
    and "\<exists>u \<in> set (users st). u_id u = uid"
    and "\<exists>c \<in> set (categories st). cat_id c = cid"
    and "b ''currencyId'' = Some (JNum (of_int k))"
    and "\<exists>c \<in> set (currencies st). cur_id c = k"
    and i4: "int4 uid" "int4 cid" "int4 k"
  shows "respond (db_post_record st t b) =
           (reply 201 (json_of_record (new_record st t uid cid k a)),
            with_record st (new_record st t uid cid k a))"
proof -
  obtain u where "find (\<lambda>u. u_id u = uid) (users st) = Some u"
    using find_exists[OF assms(4)] by blast
  moreover obtain c where "find (\<lambda>c. cat_id c = cid) (categories st) = Some c"
    using find_exists[OF assms(5)] by blast
  moreover obtain x where "find (\<lambda>c. cur_id c = k) (currencies st) = Some x"
    using find_exists[OF assms(7)] by blast
  ultimately show ?thesis
    using i4 assms(1,2,3,6) record_create_ok[OF assms(4,5,7), of t a]
    by (simp add: db_post_record_def respond_def error_middleware_def user_findUnique_def
        category_findUnique_def currency_findUnique_def)
qed

lemma db_post_record_default_currency:
  assumes "b ''userId'' = Some (JNum (of_int (u_id u)))"
    and "b ''categoryId'' = Some (JNum (of_int cid))"
    and "b ''amount'' = Some (JNum a)"
    and "store_ok st" and "u \<in> set (users st)"
    and "\<exists>c \<in> set (categories st). cat_id c = cid"
    and "\<not> is_number (b ''currencyId'')"
    and "u_defaultCurrencyId u = Some d"
    and i4: "int4 (u_id u)" "int4 cid" "int4 d"
  shows "respond (db_post_record st t b) =
           (reply 201 (json_of_record (new_record st t (u_id u) cid d a)),
            with_record st (new_record st t (u_id u) cid d a))"
proof -
  have "distinct (map u_id (users st))" using assms(4) by (simp add: store_ok_def)
  then have fu: "find (\<lambda>x. u_id x = u_id u) (users st) = Some u"
    using find_distinct assms(5) by fast
  obtain c where fc: "find (\<lambda>c. cat_id c = cid) (categories st) = Some c"
    using find_exists[OF assms(6)] by blast
  have d: "(\<exists>c \<in> set (currencies st). cur_id c = d) \<and> d \<noteq> 0"
    using store_ok_default[OF assms(4,5,8)] .
  have ex: "\<exists>x \<in> set (users st). u_id x = u_id u" using assms(5) by blast
  show ?thesis
    using i4 assms(1,2,3,7,8) fu fc d record_create_ok[OF ex assms(6), of d t a]
    by (simp add: db_post_record_def respond_def error_middleware_def user_findUnique_def
        category_findUnique_def)
qed

lemma db_post_record_no_currency:
  assumes "b ''userId'' = Some (JNum (of_int (u_id u)))"
    and "b ''categoryId'' = Some (JNum (of_int cid))"
    and "b ''amount'' = Some (JNum a)"
    and "store_ok st" and "u \<in> set (users st)"
    and "\<exists>c \<in> set (categories st). cat_id c = cid"
    and "\<not> is_number (b ''currencyId'')"
    and "u_defaultCurrencyId u = None"
    and i4: "int4 (u_id u)" "int4 cid"
  shows "respond (db_post_record st t b) =
           (message 400 ''User has no default currency and no currencyId was provided'', st)"
proof -
  have "distinct (map u_id (users st))" using assms(4) by (simp add: store_ok_def)
  then have fu: "find (\<lambda>x. u_id x = u_id u) (users st) = Some u"
    using find_distinct assms(5) by fast
  obtain c where fc: "find (\<lambda>c. cat_id c = cid) (categories st) = Some c"
    using find_exists[OF assms(6)] by blast
  show ?thesis
    using i4 assms(1,2,3,7,8) fu fc
    by (simp add: db_post_record_def respond_def error_middleware_def user_findUnique_def
        category_findUnique_def)
qed

text \<open>
  With authentication every member goes through \<open>Number\<close>, and a \<open>currencyId\<close> other
  than \<open>undefined\<close> and \<open>null\<close> is the one supplied.
\<close>

lemma auth_post_record_invalid_currency:
  assumes "Number_js (b ''userId'') = Num (of_int uid)"
    and "Number_js (b ''categoryId'') = Num (of_int cid)"
    and "\<not> isNaN (Number_js (b ''amount''))"
    and "\<exists>u \<in> set (users st). u_id u = uid"
    and "\<exists>c \<in> set (categories st). cat_id c = cid"
    and "b ''currencyId'' = Some v" and "v \<noteq> JNull"
    and "Number_val v = NaN"
    and i4: "int4 uid" "int4 cid"
  shows "respond (auth_post_record ev st b) = (message 400 ''Invalid currency id'', st)"
proof -
  obtain u where "find (\<lambda>u. u_id u = uid) (users st) = Some u"
    using find_exists[OF assms(4)] by blast
  moreover obtain c where "find (\<lambda>c. cat_id c = cid) (categories st) = Some c"
    using find_exists[OF assms(5)] by blast
  ultimately show ?thesis
    using i4 assms(1,2,3,6,7,8)
    by (simp add: auth_post_record_def respond_def error_middleware_def user_findUnique_def
        category_findUnique_def Number_js_def)
qed

lemma auth_post_record_unknown_currency:
  assumes "Number_js (b ''userId'') = Num (of_int uid)"
    and "Number_js (b ''categoryId'') = Num (of_int cid)"
    and "\<not> isNaN (Number_js (b ''amount''))"
    and "\<exists>u \<in> set (users st). u_id u = uid"
    and "\<exists>c \<in> set (categories st). cat_id c = cid"
    and "b ''currencyId'' = Some v" and "v \<noteq> JNull"
    and "Number_val v = Num (of_int k)"
    and "\<not> (\<exists>c \<in> set (currencies st). cur_id c = k)"
    and i4: "int4 uid" "int4 cid" "int4 k"
  shows "respond (auth_post_record ev st b) = (message 400 ''Currency does not exist'', st)"
proof -
  obtain u where "find (\<lambda>u. u_id u = uid) (users st) = Some u"
    using find_exists[OF assms(4)] by blast
  moreover obtain c where "find (\<lambda>c. cat_id c = cid) (categories st) = Some c"
    using find_exists[OF assms(5)] by blast
  moreover have "find (\<lambda>c. cur_id c = k) (currencies st) = None"
    using find_absent[OF assms(9)] .
  ultimately show ?thesis
    using i4 assms(1,2,3,6,7,8)
    by (simp add: auth_post_record_def respond_def error_middleware_def user_findUnique_def
        category_findUnique_def currency_findUnique_def Number_js_def)
qed

lemma auth_post_record_given_currency:
  assumes "Number_js (b ''userId'') = Num (of_int uid)"
    and "Number_js (b ''categoryId'') = Num (of_int cid)"
    and "Number_js (b ''amount'') = Num a"
    and "\<exists>u \<in> set (users st). u_id u = uid"
    and "\<exists>c \<in> set (categories st). cat_id c = cid"
    and "b ''currencyId'' = Some v" and "v \<noteq> JNull"
    and "Number_val v = Num (of_int k)"
    and "\<exists>c \<in> set (currencies st). cur_id c = k"
    and i4: "int4 uid" "int4 cid" "int4 k"
  shows "respond (auth_post_record ev st b) =
           (reply 201 (json_of_record (new_record st (now ev) uid cid k a)),
            with_record st (new_record st (now ev) uid cid k a))"
proof -
  obtain u where "find (\<lambda>u. u_id u = uid) (users st) = Some u"
    using find_exists[OF assms(4)] by blast
  moreover obtain c where "find (\<lambda>c. cat_id c = cid) (categories st) = Some c"
    using find_exists[OF assms(5)] by blast
  moreover obtain x where "find (\<lambda>c. cur_id c = k) (currencies st) = Some x"
    using find_exists[OF assms(9)] by blast
  ultimately show ?thesis
    using i4 assms(1,2,3,6,7,8) record_create_ok[OF assms(4,5,9), of "now ev" a]
    by (simp add: auth_post_record_def respond_def error_middleware_def user_findUnique_def
        category_findUnique_def currency_findUnique_def Number_js_def)
qed

lemma auth_post_record_default_currency:
  assumes "Number_js (b ''userId'') = Num (of_int (u_id u))"
    and "Number_js (b ''categoryId'') = Num (of_int cid)"
    and "Number_js (b ''amount'') = Num a"
    and "store_ok st" and "u \<in> set (users st)"
    and "\<exists>c \<in> set (categories st). cat_id c = cid"
    and "b ''currencyId'' = None \<or> b ''currencyId'' = Some JNull"
    and "u_defaultCurrencyId u = Some d"
    and i4: "int4 (u_id u)" "int4 cid" "int4 d"
  shows "respond (auth_post_record ev st b) =
           (reply 201 (json_of_record (new_record st (now ev) (u_id u) cid d a)),
            with_record st (new_record st (now ev) (u_id u) cid d a))"
proof -
  have "distinct (map u_id (users st))" using assms(4) by (simp add: store_ok_def)
  then have fu: "find (\<lambda>x. u_id x = u_id u) (users st) = Some u"
    using find_distinct assms(5) by fast
  obtain c where fc: "find (\<lambda>c. cat_id c = cid) (categories st) = Some c"
    using find_exists[OF assms(6)] by blast
  have d: "(\<exists>c \<in> set (currencies st). cur_id c = d) \<and> d \<noteq> 0"
    using store_ok_default[OF assms(4,5,8)] .
  have ex: "\<exists>x \<in> set (users st). u_id x = u_id u" using assms(5) by blast
  show ?thesis
    using i4 assms(1,2,3,7,8) fu fc d record_create_ok[OF ex assms(6), of d "now ev" a]
    by (auto simp add: auth_post_record_def respond_def error_middleware_def
        user_findUnique_def category_findUnique_def)
qed

lemma auth_post_record_no_currency:
  assumes "Number_js (b ''userId'') = Num (of_int (u_id u))"
    and "Number_js (b ''categoryId'') = Num (of_int cid)"
    and "\<not> isNaN (Number_js (b ''amount''))"
    and "store_ok st" and "u \<in> set (users st)"
    and "\<exists>c \<in> set (categories st). cat_id c = cid"
    and "b ''currencyId'' = None \<or> b ''currencyId'' = Some JNull"
    and "u_defaultCurrencyId u = None"
    and i4: "int4 (u_id u)" "int4 cid"
  shows "respond (auth_post_record ev st b) =
           (message 400 ''User has no default currency and no currencyId was provided'', st)"
proof -
  have "distinct (map u_id (users st))" using assms(4) by (simp add: store_ok_def)
  then have fu: "find (\<lambda>x. u_id x = u_id u) (users st) = Some u"
    using find_distinct assms(5) by fast
  obtain c where fc: "find (\<lambda>c. cat_id c = cid) (categories st) = Some c"
    using find_exists[OF assms(6)] by blast
  show ?thesis
    using i4 assms(1,2,3,7,8) fu fc
    by (auto simp add: auth_post_record_def respond_def error_middleware_def
        user_findUnique_def category_findUnique_def)
qed

text \<open>
  A body whose user, category or amount is not a number is answered 400 before the
  lookups.
\<close>

lemma db_post_record_not_numbers:
  assumes "\<not> is_number (b ''userId'') \<or> \<not> is_number (b ''categoryId'') \<or>
           \<not> is_number (b ''amount'')"
  shows "respond (db_post_record st t b) =
           (message 400
              ''Fields 'userId', 'categoryId' and 'amount' are required and must be numbers'',
            st)"
  using assms by (auto simp add: db_post_record_def respond_def error_middleware_def)

lemma auth_post_record_not_numbers:
  assumes "isNaN (Number_js (b ''userId'')) \<or> isNaN (Number_js (b ''categoryId'')) \<or>
           isNaN (Number_js (b ''amount''))"
  shows "respond (auth_post_record ev st b) =
           (message 400 ''Fields 'userId', 'categoryId' and 'amount' must be numbers'', st)"
  using assms by (auto simp add: auth_post_record_def respond_def error_middleware_def)

text \<open>
  So for ids that are values of the columns the two handlers do what C3 says: a supplied
  currency that exists is the currency of the record, one that does not exist is answered
  400, and without \<open>currencyId\<close> the default currency of the user decides. The handlers
  do not check that a supplied \<open>currencyId\<close> is such an id.

  C3. \<open>POST /record\<close> on the example stores, where user 1 has default currency 1 and
  the only currency is 1. Without authentication a body with \<open>currencyId: "7"\<close> is
  answered 201 and the record is stored with currency 1: the handler takes a
  \<open>currencyId\<close> that is not a JSON number as omitted. With authentication the same
  body is answered 400. A body with \<open>currencyId: 99999999999\<close>, which no \<open>INTEGER\<close>
  column holds, is answered 500 by both.
\<close>

theorem post_record_supplied_currency_unchecked:
  "map cur_id (currencies example_store) = [1] \<and>
   respond (db_post_record example_store ''2025-12-10T10:00:00.000Z''
      (example_record_body(''currencyId'' \<mapsto> JStr ''7''))) =
     (reply 201
        (JObj [(''id'', JNum 2), (''userId'', JNum 1), (''categoryId'', JNum 1),
               (''currencyId'', JNum 1), (''amount'', JNum 50),
               (''createdAt'', JStr ''2025-12-10T10:00:00.000Z'')]),
      example_store
        \<lparr>records := records example_store @
           [\<lparr>rec_id = 2, rec_userId = 1, rec_categoryId = 1, rec_currencyId = 1,
             rec_amount = 50, rec_createdAt = ''2025-12-10T10:00:00.000Z''\<rparr>],
         record_seq := 3\<rparr>) \<and>
   respond (auth_post_record example_env example_auth_store
      (example_record_body(''currencyId'' \<mapsto> JStr ''7''))) =
     (message 400 ''Currency does not exist'', example_auth_store) \<and>
   respond (db_post_record example_store ''2025-12-10T10:00:00.000Z''
      (example_record_body(''currencyId'' \<mapsto> JNum 99999999999))) =
     (message 500 ''Internal server error'', example_store) \<and>
   respond (auth_post_record example_env example_auth_store
      (example_record_body(''currencyId'' \<mapsto> JNum 99999999999))) =
     (message 500 ''Internal server error'', example_auth_store)"
  by code_simp

text \<open>The statuses of these answers, and the number of records afterwards.\<close>

theorem post_record_supplied_currency_unchecked_status:
  "status (fst (respond (db_post_record example_store ''2025-12-10T10:00:00.000Z''
      (example_record_body(''currencyId'' \<mapsto> JStr ''7''))))) = 201 \<and>
   length (records (snd (respond (db_post_record example_store ''2025-12-10T10:00:00.000Z''
      (example_record_body(''currencyId'' \<mapsto> JStr ''7'')))))) =
     length (records example_store) + 1 \<and>
   status (fst (respond (auth_post_record example_env example_auth_store
      (example_record_body(''currencyId'' \<mapsto> JStr ''7''))))) = 400 \<and>
   status (fst (respond (db_post_record example_store ''2025-12-10T10:00:00.000Z''
      (example_record_body(''currencyId'' \<mapsto> JNum 99999999999))))) = 500 \<and>
   status (fst (respond (auth_post_record example_env example_auth_store
      (example_record_body(''currencyId'' \<mapsto> JNum 99999999999))))) = 500"
  using post_record_supplied_currency_unchecked
  by (simp add: reply_def message_def)

section \<open>Setting the default currency of a user\<close>

text \<open>
  Both persistent routers look up the user, then the currency, then update. They differ
  in the answer for a currency that does not exist: 404 without authentication, 400 with.
\<close>

lemma defaultCurrency_with_default:
  assumes "find (\<lambda>c. cur_id c = k) (currencies st) = Some c"
  shows "defaultCurrency (with_default st uid k) (u\<lparr>u_defaultCurrencyId := Some k\<rparr>) =
           json_of_currency c"
  using assms by (simp add: defaultCurrency_def with_default_def)

lemma user_update_ok:
  assumes "find (\<lambda>x. u_id x = uid) (users st) = Some u"
    and "\<exists>c \<in> set (currencies st). cur_id c = k"
    and "int4 uid" and "int4 k"
  shows "user_update_defaultCurrencyId st (Num (of_int uid)) (Num (of_int k)) =
           Inr (u\<lparr>u_defaultCurrencyId := Some k\<rparr>, with_default st uid k)"
  using assms by (simp add: user_update_defaultCurrencyId_def with_default_def Let_def)

lemma db_patch_no_user:
  assumes "Number_str p = Num (of_int uid)"
    and "b ''currencyId'' = Some (JNum (of_int k))"
    and "\<not> (\<exists>x \<in> set (users st). u_id x = uid)"
    and i4: "int4 uid" "int4 k"
  shows "respond (db_patch_user_currency st p b) = (message 404 ''User not found'', st)"
  using assms find_absent[OF assms(3)]
  by (simp add: db_patch_user_currency_def respond_def error_middleware_def user_findUnique_def)

lemma db_patch_no_currency:
  assumes "Number_str p = Num (of_int uid)"
    and "b ''currencyId'' = Some (JNum (of_int k))"
    and "\<exists>x \<in> set (users st). u_id x = uid"
    and "\<not> (\<exists>c \<in> set (currencies st). cur_id c = k)"
    and i4: "int4 uid" "int4 k"
  shows "respond (db_patch_user_currency st p b) = (message 404 ''Currency not found'', st)"
proof -
  obtain u where "find (\<lambda>x. u_id x = uid) (users st) = Some u"
    using find_exists[OF assms(3)] by blast
  then show ?thesis
    using i4 assms(1,2) find_absent[OF assms(4)]
    by (simp add: db_patch_user_currency_def respond_def error_middleware_def
        user_findUnique_def currency_findUnique_def)
qed

lemma db_patch_sets_default:
  assumes "Number_str p = Num (of_int uid)"
    and "b ''currencyId'' = Some (JNum (of_int k))"
    and "find (\<lambda>x. u_id x = uid) (users st) = Some u"
    and "find (\<lambda>c. cur_id c = k) (currencies st) = Some c"
    and i4: "int4 uid" "int4 k"
  shows "respond (db_patch_user_currency st p b) =
           (reply 200 (JObj (user_fields (u\<lparr>u_defaultCurrencyId := Some k\<rparr>) @
                             [(''defaultCurrency'', json_of_currency c)])),
            with_default st uid k)"
proof -
  have ex: "\<exists>c \<in> set (currencies st). cur_id c = k"
    using assms(4) by (auto simp: find_Some_iff)
  show ?thesis
    using assms user_update_ok[OF assms(3) ex] defaultCurrency_with_default[OF assms(4)]
    by (simp add: db_patch_user_currency_def respond_def error_middleware_def
        user_findUnique_def currency_findUnique_def json_of_user_include_def)
qed

lemma auth_patch_no_user:
  assumes "Number_str p = Num (of_int uid)"
    and "Number_js (b ''currencyId'') = Num (of_int k)"
    and "\<not> (\<exists>x \<in> set (users st). u_id x = uid)"
    and i4: "int4 uid" "int4 k"
  shows "respond (auth_patch_user_currency st p b) = (message 404 ''User not found'', st)"
  using assms find_absent[OF assms(3)]
  by (simp add: auth_patch_user_currency_def respond_def error_middleware_def user_findUnique_def)

lemma auth_patch_no_currency:
  assumes "Number_str p = Num (of_int uid)"
    and "Number_js (b ''currencyId'') = Num (of_int k)"
    and "\<exists>x \<in> set (users st). u_id x = uid"
    and "\<not> (\<exists>c \<in> set (currencies st). cur_id c = k)"
    and i4: "int4 uid" "int4 k"
  shows "respond (auth_patch_user_currency st p b) = (message 400 ''Currency does not exist'', st)"
proof -
  obtain u where "find (\<lambda>x. u_id x = uid) (users st) = Some u"
    using find_exists[OF assms(3)] by blast
  then show ?thesis
    using i4 assms(1,2) find_absent[OF assms(4)]
    by (simp add: auth_patch_user_currency_def respond_def error_middleware_def
        user_findUnique_def currency_findUnique_def)
qed

lemma auth_patch_sets_default:
  assumes "Number_str p = Num (of_int uid)"
    and "Number_js (b ''currencyId'') = Num (of_int k)"
    and "find (\<lambda>x. u_id x = uid) (users st) = Some u"
    and "find (\<lambda>c. cur_id c = k) (currencies st) = Some c"
    and i4: "int4 uid" "int4 k"
  shows "respond (auth_patch_user_currency st p b) =
           (reply 200 (JObj (user_select (u\<lparr>u_defaultCurrencyId := Some k\<rparr>) @
                             [(''defaultCurrency'', json_of_currency c)])),
            with_default st uid k)"
proof -
  have ex: "\<exists>c \<in> set (currencies st). cur_id c = k"
    using assms(4) by (auto simp: find_Some_iff)
  show ?thesis
    using assms user_update_ok[OF assms(3) ex] defaultCurrency_with_default[OF assms(4)]
    by (simp add: auth_patch_user_currency_def respond_def error_middleware_def
        user_findUnique_def currency_findUnique_def user_select_include_def)
qed

text \<open>
  C8. \<open>PATCH /user/1/currency\<close> with \<open>currencyId\<close> 7 on the example stores, where
  user 1 exists and currency 7 does not. The handler without authentication answers 404,
  not 400, and keeps the store. The handler with authentication answers 400, and so does
  \<open>POST /record\<close> of the router without authentication for the same missing currency.
\<close>

theorem patch_user_currency_unknown_currency:
  "map u_id (users example_store) = [1] \<and>
   map cur_id (currencies example_store) = [1] \<and>
   respond (db_patch_user_currency example_store ''1'' [''currencyId'' \<mapsto> JNum 7]) =
     (message 404 ''Currency not found'', example_store) \<and>
   status (fst (respond
     (db_patch_user_currency example_store ''1'' [''currencyId'' \<mapsto> JNum 7]))) = 404 \<and>
   respond (auth_patch_user_currency example_auth_store ''1'' [''currencyId'' \<mapsto> JNum 7]) =
     (message 400 ''Currency does not exist'', example_auth_store) \<and>
   respond (db_post_record example_store ''2025-12-10T10:00:00.000Z''
      (example_record_body(''currencyId'' \<mapsto> JNum 7))) =
     (message 400 ''Currency does not exist'', example_store)"
  by code_simp

text \<open>The statuses of the three answers.\<close>

theorem patch_user_currency_unknown_currency_status:
  "status (fst (respond
     (db_patch_user_currency example_store ''1'' [''currencyId'' \<mapsto> JNum 7]))) = 404 \<and>
   snd (respond
     (db_patch_user_currency example_store ''1'' [''currencyId'' \<mapsto> JNum 7])) =
     example_store \<and>
   status (fst (respond
     (auth_patch_user_currency example_auth_store ''1'' [''currencyId'' \<mapsto> JNum 7]))) = 400 \<and>
   status (fst (respond (db_post_record example_store ''2025-12-10T10:00:00.000Z''
      (example_record_body(''currencyId'' \<mapsto> JNum 7))))) = 400"
  using patch_user_currency_unknown_currency
  by (simp add: message_def)

text \<open>
  The answers of the two handlers for a user id and a \<open>currencyId\<close> that are values of
  the columns: a user that does not exist is answered 404; a currency that does not
  exist, for a user that does, is answered 404 without authentication and 400 with; when
  both exist the default currency of the user is set and the answer is 200 with the
  updated user and, as \<open>defaultCurrency\<close>, the currency.
\<close>

lemma patch_user_currency_responses:
  fixes st :: "user store" and sa :: "auth_user store"
  assumes "Number_str p = Num (of_int uid)"
    and "b ''currencyId'' = Some (JNum (of_int k))"
    and "Number_js (ba ''currencyId'') = Num (of_int k)"
    and "int4 uid" and "int4 k"
  shows
    "(\<not> (\<exists>x \<in> set (users st). u_id x = uid) \<longrightarrow>
        respond (db_patch_user_currency st p b) = (message 404 ''User not found'', st)) \<and>
     ((\<exists>x \<in> set (users st). u_id x = uid) \<and> \<not> (\<exists>c \<in> set (currencies st). cur_id c = k) \<longrightarrow>
        respond (db_patch_user_currency st p b) = (message 404 ''Currency not found'', st)) \<and>
     (\<forall>u c. find (\<lambda>x. u_id x = uid) (users st) = Some u \<and>
            find (\<lambda>c. cur_id c = k) (currencies st) = Some c \<longrightarrow>
        respond (db_patch_user_currency st p b) =
          (reply 200 (JObj (user_fields (u\<lparr>u_defaultCurrencyId := Some k\<rparr>) @
                            [(''defaultCurrency'', json_of_currency c)])),
           with_default st uid k)) \<and>
     (\<not> (\<exists>x \<in> set (users sa). u_id x = uid) \<longrightarrow>
        respond (auth_patch_user_currency sa p ba) = (message 404 ''User not found'', sa)) \<and>
     ((\<exists>x \<in> set (users sa). u_id x = uid) \<and> \<not> (\<exists>c \<in> set (currencies sa). cur_id c = k) \<longrightarrow>
        respond (auth_patch_user_currency sa p ba) =
          (message 400 ''Currency does not exist'', sa)) \<and>
     (\<forall>u c. find (\<lambda>x. u_id x = uid) (users sa) = Some u \<and>
            find (\<lambda>c. cur_id c = k) (currencies sa) = Some c \<longrightarrow>
        respond (auth_patch_user_currency sa p ba) =
          (reply 200 (JObj (user_select (u\<lparr>u_defaultCurrencyId := Some k\<rparr>) @
                            [(''defaultCurrency'', json_of_currency c)])),
           with_default sa uid k))"
  using assms db_patch_no_user[of p uid b k st] db_patch_no_currency[of p uid b k st]
    db_patch_sets_default[of p uid b k st]
    auth_patch_no_user[of p uid ba k sa] auth_patch_no_currency[of p uid ba k sa]
    auth_patch_sets_default[of p uid ba k sa]
  by blast

text \<open>On the example stores, with currency 1, which exists, and 7, which does not.\<close>

lemma patch_user_currency_responses_example:
  "respond (db_patch_user_currency example_store ''1'' [''currencyId'' \<mapsto> JNum 1]) =
     (reply 200 (JObj [(''id'', JNum 1), (''name'', JStr ''Alice''),
                       (''defaultCurrencyId'', JNum 1),
                       (''defaultCurrency'',
                        JObj [(''id'', JNum 1), (''code'', JStr ''UAH''),
                              (''name'', JStr ''Hryvnia'')])]),
      with_default example_store 1 1) \<and>
   respond (auth_patch_user_currency example_auth_store ''1'' [''currencyId'' \<mapsto> JStr ''1'']) =
     (reply 200 (JObj [(''id'', JNum 1), (''name'', JStr ''Alice''),
                       (''email'', JStr ''alice@example.com''),
                       (''defaultCurrencyId'', JNum 1),
                       (''defaultCurrency'',
                        JObj [(''id'', JNum 1), (''code'', JStr ''UAH''),
                              (''name'', JStr ''Hryvnia'')])]),
      with_default example_auth_store 1 1) \<and>
   respond (auth_patch_user_currency example_auth_store ''1'' [''currencyId'' \<mapsto> JNum 7]) =
     (message 400 ''Currency does not exist'', example_auth_store) \<and>
   respond (db_patch_user_currency example_store ''1'' [''currencyId'' \<mapsto> JNum 7]) =
     (message 404 ''Currency not found'', example_store)"
proof -
  let ?u = "\<lparr>u_id = 1, u_name = ''Alice'', u_defaultCurrencyId = Some 1\<rparr>"
  let ?ua = "\<lparr>u_id = 1, u_name = ''Alice'', u_defaultCurrencyId = Some 1,
               u_email = ''alice@example.com'', u_passwordHash = ''$2b$10$digest''\<rparr>"
  let ?c = "\<lparr>cur_id = 1, cur_code = ''UAH'', cur_name = ''Hryvnia''\<rparr>"
  have f: "find (\<lambda>x. u_id x = 1) (users example_store) = Some ?u"
      "find (\<lambda>c. cur_id c = 1) (currencies example_store) = Some ?c"
      "find (\<lambda>x. u_id x = 1) (users example_auth_store) = Some ?ua"
      "find (\<lambda>c. cur_id c = 1) (currencies example_auth_store) = Some ?c"
      "\<exists>x \<in> set (users example_store). u_id x = 1"
      "\<not> (\<exists>c \<in> set (currencies example_store). cur_id c = 7)"
      "\<exists>x \<in> set (users example_auth_store). u_id x = 1"
      "\<not> (\<exists>c \<in> set (currencies example_auth_store). cur_id c = 7)"
    by (simp_all add: example_store_def example_auth_store_def)
  have b1: "[''currencyId'' \<mapsto> JNum 1] ''currencyId'' = Some (JNum (of_int 1))"
      "Number_js ([''currencyId'' \<mapsto> JStr ''1''] ''currencyId'') = Num (of_int 1)"
    using Number_str_1 by (simp_all add: Number_js_def)
  have i7: "int4 7"
    by (simp add: int4_def)
  have b7: "[''currencyId'' \<mapsto> JNum 7] ''currencyId'' = Some (JNum (of_int 7))"
      "Number_js ([''currencyId'' \<mapsto> JNum 7] ''currencyId'') = Num (of_int 7)"
    by (simp_all add: Number_js_def)
  note w1 = patch_user_currency_responses[of "''1''" 1 "[''currencyId'' \<mapsto> JNum 1]" 1
      "[''currencyId'' \<mapsto> JStr ''1'']" example_store example_auth_store, OF Number_str_1 b1 int4_1 int4_1]
  note w7 = patch_user_currency_responses[of "''1''" 1 "[''currencyId'' \<mapsto> JNum 7]" 7
      "[''currencyId'' \<mapsto> JNum 7]" example_store example_auth_store, OF Number_str_1 b7 int4_1 i7]
  have r1: "respond (db_patch_user_currency example_store ''1'' [''currencyId'' \<mapsto> JNum 1]) =
      (reply 200 (JObj (user_fields (?u\<lparr>u_defaultCurrencyId := Some 1\<rparr>) @
                            [(''defaultCurrency'', json_of_currency ?c)])),
           with_default example_store 1 1)"
    using w1 f(1,2) by blast
  have r2: "respond (auth_patch_user_currency example_auth_store ''1'' [''currencyId'' \<mapsto> JStr ''1'']) =
      (reply 200 (JObj (user_select (?ua\<lparr>u_defaultCurrencyId := Some 1\<rparr>) @
                            [(''defaultCurrency'', json_of_currency ?c)])),
           with_default example_auth_store 1 1)"
    using w1 f(3,4) by blast
  have r3: "respond (auth_patch_user_currency example_auth_store ''1'' [''currencyId'' \<mapsto> JNum 7]) =
     (message 400 ''Currency does not exist'', example_auth_store)"
    using w7 f(7,8) by blast
  have r4: "respond (db_patch_user_currency example_store ''1'' [''currencyId'' \<mapsto> JNum 7]) =
     (message 404 ''Currency not found'', example_store)"
    using w7 f(5,6) by blast
  show ?thesis
    unfolding r1 r2 r3 r4
    by (simp add: user_fields_def user_select_def json_of_currency_def json_int_def
        json_opt_int_def)
qed

section \<open>Listing records\<close>

text \<open>
  Without authentication the filters are \<open>user_id\<close> and \<open>category_id\<close>, and one of
  them, not empty, is required. With authentication the filters are \<open>userId\<close> and
  \<open>categoryId\<close>, and none is required.
\<close>

lemma record_findMany_both:
  "int4 u \<Longrightarrow> int4 c \<Longrightarrow>
   record_findMany st \<lparr>w_userId = Some (Num (of_int u)), w_categoryId = Some (Num (of_int c))\<rparr> =
     Inr (filter (\<lambda>r. rec_userId r = u \<and> rec_categoryId r = c) (records st))"
  by (simp add: record_findMany_def)

lemma record_findMany_none:
  "record_findMany st \<lparr>w_userId = None, w_categoryId = None\<rparr> = Inr (records st)"
  by (simp add: record_findMany_def)

lemma db_get_records_no_filter:
  assumes "falsy_param (query ''user_id'')" and "falsy_param (query ''category_id'')"
  shows "respond (db_get_records st query) =
           (message 400
              ''At least one of query parameters 'user_id' or 'category_id' is required'', st)"
  using assms by (simp add: db_get_records_def respond_def error_middleware_def)

lemma db_get_records_both:
  assumes "query ''user_id'' = Some p" and "p \<noteq> []" and "Number_str p = Num (of_int u)"
    and "query ''category_id'' = Some q" and "q \<noteq> []" and "Number_str q = Num (of_int c)"
    and "int4 u"
    and "int4 c"
  shows "respond (db_get_records st query) =
           (reply 200 (JArr (map (json_of_record_include st user_fields)
              (filter (\<lambda>r. rec_userId r = u \<and> rec_categoryId r = c) (records st)))), st)"
  using assms
  by (simp add: db_get_records_def respond_def error_middleware_def record_findMany_both)

lemma auth_get_records_no_filter:
  assumes "query ''userId'' = None" and "query ''categoryId'' = None"
  shows "respond (auth_get_records st query) =
           (reply 200 (JArr (map (json_of_record_include st auth_user_fields) (records st))), st)"
  using assms
  by (simp add: auth_get_records_def respond_def error_middleware_def record_findMany_none)

lemma auth_get_records_both:
  assumes "query ''userId'' = Some p" and "Number_str p = Num (of_int u)"
    and "query ''categoryId'' = Some q" and "Number_str q = Num (of_int c)"
    and "int4 u"
    and "int4 c"
  shows "respond (auth_get_records st query) =
           (reply 200 (JArr (map (json_of_record_include st auth_user_fields)
              (filter (\<lambda>r. rec_userId r = u \<and> rec_categoryId r = c) (records st)))), st)"
  using assms
  by (simp add: auth_get_records_def respond_def error_middleware_def record_findMany_both)

text \<open>
  The two handlers side by side, for parameters that are values of the columns: what is
  required, and that the list is exactly the stored records that pass the filters, in the
  order of the table.
\<close>

lemma get_records_filters:
  fixes st :: "user store" and sa :: "auth_user store"
  assumes "Number_str p = Num (of_int u)" and "Number_str q = Num (of_int c)"
    and "int4 u" and "int4 c"
  shows
    "(falsy_param (query ''user_id'') \<and> falsy_param (query ''category_id'') \<longrightarrow>
        respond (db_get_records st query) =
          (message 400
             ''At least one of query parameters 'user_id' or 'category_id' is required'', st)) \<and>
     (query ''user_id'' = Some p \<and> p \<noteq> [] \<and> query ''category_id'' = Some q \<and> q \<noteq> [] \<longrightarrow>
        respond (db_get_records st query) =
          (reply 200 (JArr (map (json_of_record_include st user_fields)
             (filter (\<lambda>r. rec_userId r = u \<and> rec_categoryId r = c) (records st)))), st)) \<and>
     (query ''userId'' = None \<and> query ''categoryId'' = None \<longrightarrow>
        respond (auth_get_records sa query) =
          (reply 200 (JArr (map (json_of_record_include sa auth_user_fields) (records sa))), sa)) \<and>
     (query ''userId'' = Some p \<and> query ''categoryId'' = Some q \<longrightarrow>
        respond (auth_get_records sa query) =
          (reply 200 (JArr (map (json_of_record_include sa auth_user_fields)
             (filter (\<lambda>r. rec_userId r = u \<and> rec_categoryId r = c) (records sa)))), sa))"
  using assms db_get_records_no_filter[of query st] db_get_records_both[of query p u q c st]
    auth_get_records_no_filter[of query sa] auth_get_records_both[of query p u q c sa]
  by blast

text \<open>On the example stores, whose one record has user 1 and category 1.\<close>

lemma get_records_filters_example:
  "respond (db_get_records example_store [''user_id'' \<mapsto> ''1'', ''category_id'' \<mapsto> ''1'']) =
     (reply 200 (JArr (map (json_of_record_include example_store user_fields)
        (records example_store))), example_store) \<and>
   respond (db_get_records example_store Map.empty) =
     (message 400
        ''At least one of query parameters 'user_id' or 'category_id' is required'',
      example_store) \<and>
   respond (auth_get_records example_auth_store [''userId'' \<mapsto> ''1'', ''categoryId'' \<mapsto> ''2'']) =
     (reply 200 (JArr []), example_auth_store) \<and>
   respond (auth_get_records example_auth_store Map.empty) =
     (reply 200 (JArr (map (json_of_record_include example_auth_store auth_user_fields)
        (records example_auth_store))), example_auth_store)"
proof -
  note w1 = get_records_filters[OF Number_str_1 Number_str_1 int4_1 int4_1,
      of "[''user_id'' \<mapsto> ''1'', ''category_id'' \<mapsto> ''1'']" example_store example_auth_store]
  note w2 = get_records_filters[OF Number_str_1 Number_str_1 int4_1 int4_1,
      of Map.empty example_store example_auth_store]
  note w3 = get_records_filters[OF Number_str_1 Number_str_2 int4_1 int4_2,
      of "[''userId'' \<mapsto> ''1'', ''categoryId'' \<mapsto> ''2'']" example_store example_auth_store]
  have f1: "filter (\<lambda>r. rec_userId r = 1 \<and> rec_categoryId r = 1) (records example_store) =
      records example_store"
    by (simp add: example_store_def)
  have f2: "filter (\<lambda>r. rec_userId r = 1 \<and> rec_categoryId r = 2) (records example_auth_store) = []"
    by (simp add: example_auth_store_def)
  have r1: "respond (db_get_records example_store [''user_id'' \<mapsto> ''1'', ''category_id'' \<mapsto> ''1'']) =
     (reply 200 (JArr (map (json_of_record_include example_store user_fields)
        (records example_store))), example_store)"
    using w1 f1 by simp
  have r2: "respond (db_get_records example_store Map.empty) =
     (message 400
        ''At least one of query parameters 'user_id' or 'category_id' is required'',
      example_store)"
    using w2 by simp
  have r3: "respond (auth_get_records example_auth_store [''userId'' \<mapsto> ''1'', ''categoryId'' \<mapsto> ''2'']) =
     (reply 200 (JArr []), example_auth_store)"
    using w3 f2 by simp
  have r4: "respond (auth_get_records example_auth_store Map.empty) =
     (reply 200 (JArr (map (json_of_record_include example_auth_store auth_user_fields)
        (records example_auth_store))), example_auth_store)"
    using w2 by simp
  from r1 r2 r3 r4 show ?thesis by (intro conjI)
qed

text \<open>
  C4. On the example store the router with authentication, for requests with a valid
  token: \<open>GET /record\<close> without any parameter is answered 200 with every record, not
  400; and \<open>GET /record?user_id=2&category_id=2\<close> is answered with every record,
  although no record has user 2 and category 2. The handler without authentication
  answers the first with 400 and the second with the empty list.
\<close>

theorem get_records_without_filter:
  "auth_router example_env example_auth_store (authorised_request GET [''record''] Map.empty) =
     (reply 200 (JArr (map (json_of_record_include example_auth_store auth_user_fields)
        (records example_auth_store))), example_auth_store) \<and>
   auth_router example_env example_auth_store
       (authorised_request GET [''record'']
          [''user_id'' \<mapsto> ''2'', ''category_id'' \<mapsto> ''2'']) =
     (reply 200 (JArr (map (json_of_record_include example_auth_store auth_user_fields)
        (records example_auth_store))), example_auth_store) \<and>
   records example_auth_store \<noteq> [] \<and>
   filter (\<lambda>r. rec_userId r = 2 \<and> rec_categoryId r = 2) (records example_auth_store) = [] \<and>
   respond (db_get_records example_store Map.empty) =
     (message 400
        ''At least one of query parameters 'user_id' or 'category_id' is required'',
      example_store) \<and>
   respond (db_get_records example_store
       [''user_id'' \<mapsto> ''2'', ''category_id'' \<mapsto> ''2'']) =
     (reply 200 (JArr []), example_store)"
  by code_simp

section \<open>The authentication middleware\<close>

text \<open>
  The pieces of a header between spaces: the first is the header up to its first space,
  and a header that begins with \<open>Bearer\<close> and a space has \<open>Bearer\<close> as its first piece.
  Hence the test of the middleware on the first two pieces holds exactly for the headers
  of the form \<open>Bearer <token>\<close>, and the piece it verifies is the token.
\<close>

lemma split_space_head:
  "split_space h =
     takeWhile (\<lambda>c. c \<noteq> CHR '' '') h #
       (case dropWhile (\<lambda>c. c \<noteq> CHR '' '') h of [] \<Rightarrow> [] | _ # r \<Rightarrow> split_space r)"
proof (induction h)
  case Nil
  then show ?case by simp
next
  case (Cons c cs)
  then show ?case by (cases "c = CHR '' ''") (simp_all split: list.splits)
qed


lemma split_space_second:
  "split_space r = header # rest \<Longrightarrow> header = takeWhile (\<lambda>c. c \<noteq> CHR '' '') r"
  using split_space_head[of r] by simp




text \<open>
  The matching of the examples on some requests: a public route written in capitals or
  with a \<open>/\<close> at the end is the public route, and an empty piece is no parameter.
\<close>

lemma example_match_examples:
  "example_match POST [''user''] = Post_user"
  "example_match POST [''USER''] = Post_user"
  "example_match POST [''user'', []] = Post_user"
  "example_match POST [''Auth'', ''Login''] = Post_auth_login"
  "example_match GET [''healthcheck'', []] = Get_healthcheck"
  "example_match GET [''users''] = Get_users"
  "example_match GET [''user'', ''1''] = Get_user ''1''"
  "example_match GET [''user'', []] = No_route"
  "example_match PATCH [''user'', ''1'', ''currency''] = Patch_user_currency ''1''"
  "example_match DELETE [''currency'', ''1'', []] = Delete_currency ''1''"
  "example_match PUT [''users''] = No_route"
  by code_simp+

text \<open>\<open>POST /USER\<close> without a header, on the empty database: the public route answers.\<close>

lemma post_user_in_capitals:
  "is_public example_env
     \<lparr>req_method = POST, req_path = [''USER''], req_authorization = None,
      req_query = Map.empty, req_body = example_signup_body\<rparr> \<and>
   status (fst (auth_router example_env empty_store
     \<lparr>req_method = POST, req_path = [''USER''], req_authorization = None,
      req_query = Map.empty, req_body = example_signup_body\<rparr>)) = 201"
  by code_simp




text \<open>The answer to that last request is the list of users.\<close>

lemma get_users_with_valid_token:
  "auth_router example_env example_auth_store
       (get_users_request (Some ''Bearer valid.jwt.token'')) =
     respond (auth_get_users example_auth_store)"
  by code_simp

section \<open>Logging in\<close>



lemma auth_login_success:
  assumes "b ''email'' = Some (JStr e)" and "e \<noteq> []"
    and "b ''password'' = Some (JStr pw)" and "pw \<noteq> []"
    and "find (\<lambda>u. u_email u = toLowerCase (trim e)) (users st) = Some u"
    and "bcrypt_compare ev pw (u_passwordHash u)"
  shows "respond (auth_login ev st b) =
           (reply 200 (JObj [(''accessToken'', JStr (jwt_sign ev (u_id u) (JWT_SECRET ev) ''1h'')),
                             (''user'', JObj (user_select u))]), st)"
  using assms
  by (simp add: auth_login_def respond_def error_middleware_def user_findUnique_email_def)



section \<open>Signing up\<close>

text \<open>The selection of columns in the answers about users has no \<open>passwordHash\<close>.\<close>

lemma no_hash_in_user_select: "\<not> has_field ''passwordHash'' (JObj (user_select u))"
  by (simp add: user_select_def json_int_def json_opt_int_def split: option.splits)

text \<open>
  \<open>POST /user\<close> with authentication: a body without a non-empty name, a non-empty email
  and a password of six characters or more is refused; a registered email is refused;
  otherwise the user is inserted.
\<close>

lemma auth_post_user_rejects:
  assumes "\<not> ((\<exists>n. b ''name'' = Some (JStr n) \<and> n \<noteq> []) \<and>
              (\<exists>e. b ''email'' = Some (JStr e) \<and> e \<noteq> []) \<and>
              (\<exists>pw. b ''password'' = Some (JStr pw) \<and> 6 \<le> length pw))"
  shows "status (fst (respond (auth_post_user ev st b))) = 400 \<and>
         snd (respond (auth_post_user ev st b)) = st"
proof -
  have s: "\<And>v. truthy v \<and> is_string v \<and> 6 \<le> length (string_of v) \<longleftrightarrow>
             (\<exists>pw. v = Some (JStr pw) \<and> 6 \<le> length pw)"
  proof -
    fix v show "truthy v \<and> is_string v \<and> 6 \<le> length (string_of v) \<longleftrightarrow>
             (\<exists>pw. v = Some (JStr pw) \<and> 6 \<le> length pw)"
      by (cases v rule: truthy.cases) auto
  qed
  show ?thesis
    using assms truthy_string[of "b ''name''"] truthy_string[of "b ''email''"]
      s[of "b ''password''"]
    by (auto simp add: auth_post_user_def respond_def error_middleware_def message_def
        Let_def not_le)
qed

lemma auth_post_user_duplicate:
  assumes "b ''name'' = Some (JStr n)" and "n \<noteq> []"
    and "b ''email'' = Some (JStr e)" and "e \<noteq> []"
    and "b ''password'' = Some (JStr pw)" and "6 \<le> length pw"
    and "\<exists>u \<in> set (users st). u_email u = toLowerCase (trim e)"
  shows "respond (auth_post_user ev st b) =
           (message 400 ''User with this email already exists'', st)"
proof -
  obtain u where "find (\<lambda>u. u_email u = toLowerCase (trim e)) (users st) = Some u"
    using find_exists[OF assms(7)] by blast
  moreover have "pw \<noteq> []" using assms(6) by auto
  ultimately show ?thesis
    using assms(1-6)
    by (simp add: auth_post_user_def respond_def error_middleware_def
        user_findUnique_email_def)
qed

lemma auth_post_user_creates:
  assumes "b ''name'' = Some (JStr n)" and "n \<noteq> []"
    and "b ''email'' = Some (JStr e)" and "e \<noteq> []"
    and "b ''password'' = Some (JStr pw)" and "6 \<le> length pw"
    and "\<not> (\<exists>u \<in> set (users st). u_email u = toLowerCase (trim e))"
  shows "respond (auth_post_user ev st b) =
           (reply 201 (JObj (user_select (new_auth_user st n e (bcrypt_hash ev pw 10)))),
            with_user st (new_auth_user st n e (bcrypt_hash ev pw 10)))"
proof -
  have "pw \<noteq> []" using assms(6) by auto
  then show ?thesis
    using assms find_absent[OF assms(7)]
    by (simp add: auth_post_user_def respond_def error_middleware_def
        user_findUnique_email_def user_create_auth_def new_auth_user_def with_user_def Let_def)
qed

text \<open>
  C7. For every \<open>POST /user\<close> with authentication. Unless name and email are non-empty
  strings and the password a string of at least six characters, the answer is 400 and the
  store is unchanged (so when one of them is missing, or the password is shorter).
  Otherwise the email is trimmed and put in lower case; if a user has that email the
  answer is 400 and the store is unchanged; if none has, one user is added, with that
  email and with the hash of the password as \<open>bcrypt.hash\<close> of cost 10 gives it, and the
  answer is 201 with id, name, email and defaultCurrencyId of the user and no
  \<open>passwordHash\<close>.
\<close>

theorem signup_contract:
  "(\<not> ((\<exists>n. b ''name'' = Some (JStr n) \<and> n \<noteq> []) \<and>
        (\<exists>e. b ''email'' = Some (JStr e) \<and> e \<noteq> []) \<and>
        (\<exists>pw. b ''password'' = Some (JStr pw) \<and> 6 \<le> length pw)) \<longrightarrow>
      status (fst (respond (auth_post_user ev st b))) = 400 \<and>
      snd (respond (auth_post_user ev st b)) = st) \<and>
   (\<forall>n e pw. b ''name'' = Some (JStr n) \<and> n \<noteq> [] \<and>
        b ''email'' = Some (JStr e) \<and> e \<noteq> [] \<and>
        b ''password'' = Some (JStr pw) \<and> 6 \<le> length pw \<longrightarrow>
      ((\<exists>u \<in> set (users st). u_email u = toLowerCase (trim e)) \<longrightarrow>
         respond (auth_post_user ev st b) =
           (message 400 ''User with this email already exists'', st)) \<and>
      (\<not> (\<exists>u \<in> set (users st). u_email u = toLowerCase (trim e)) \<longrightarrow>
         respond (auth_post_user ev st b) =
           (reply 201 (JObj (user_select (new_auth_user st n e (bcrypt_hash ev pw 10)))),
            with_user st (new_auth_user st n e (bcrypt_hash ev pw 10))) \<and>
         u_email (new_auth_user st n e (bcrypt_hash ev pw 10)) = toLowerCase (trim e) \<and>
         u_passwordHash (new_auth_user st n e (bcrypt_hash ev pw 10)) = bcrypt_hash ev pw 10 \<and>
         \<not> has_field ''passwordHash''
             (JObj (user_select (new_auth_user st n e (bcrypt_hash ev pw 10))))))"
  using auth_post_user_rejects[of b ev st] auth_post_user_duplicate[of b _ _ _ st ev]
    auth_post_user_creates[of b _ _ _ st ev] no_hash_in_user_select
  by (simp add: new_auth_user_def)

text \<open>A sign-up on the empty store, one with a password of five characters, and one on
  the example store with the email of user 1 in capitals.\<close>

theorem signup_contract_witness:
  "respond (auth_post_user example_env empty_store example_signup_body) =
     (reply 201 (JObj [(''id'', JNum 1), (''name'', JStr ''Bob''),
                       (''email'', JStr ''bob@example.com''),
                       (''defaultCurrencyId'', JNull)]),
      with_user empty_store
        \<lparr>u_id = 1, u_name = ''Bob'', u_defaultCurrencyId = None,
         u_email = ''bob@example.com'', u_passwordHash = ''$2b$10$secret1''\<rparr>) \<and>
   status (fst (respond (auth_post_user example_env empty_store
      (example_signup_body(''password'' \<mapsto> JStr ''12345''))))) = 400 \<and>
   snd (respond (auth_post_user example_env empty_store
      (example_signup_body(''password'' \<mapsto> JStr ''12345'')))) = empty_store \<and>
   respond (auth_post_user example_env example_auth_store
      (example_signup_body(''email'' \<mapsto> JStr ''ALICE@example.com''))) =
     (message 400 ''User with this email already exists'', example_auth_store)"
proof -
  have n1: "toLowerCase (trim '' Bob@Example.COM '') = ''bob@example.com''"
    and n2: "toLowerCase (trim ''ALICE@example.com'') = ''alice@example.com''"
    and n3: "trim ''Bob '' = ''Bob''"
    by code_simp+
  have b: "example_signup_body ''name'' = Some (JStr ''Bob '') \<and> ''Bob '' \<noteq> [] \<and>
      example_signup_body ''email'' = Some (JStr '' Bob@Example.COM '') \<and>
      '' Bob@Example.COM '' \<noteq> [] \<and>
      example_signup_body ''password'' = Some (JStr ''secret1'') \<and> 6 \<le> length ''secret1''"
    by (simp add: example_signup_body_def)
  have fresh: "\<not> (\<exists>u \<in> set (users (empty_store :: auth_user store)).
                  u_email u = toLowerCase (trim '' Bob@Example.COM ''))"
    by (simp add: empty_store_def)
  have r1: "respond (auth_post_user example_env empty_store example_signup_body) =
      (reply 201 (JObj (user_select (new_auth_user empty_store ''Bob '' '' Bob@Example.COM ''
                          (bcrypt_hash example_env ''secret1'' 10)))),
       with_user empty_store (new_auth_user empty_store ''Bob '' '' Bob@Example.COM ''
                          (bcrypt_hash example_env ''secret1'' 10)))"
    using signup_contract[of example_signup_body example_env empty_store] b fresh by blast
  have short: "\<not> ((\<exists>n. (example_signup_body(''password'' \<mapsto> JStr ''12345'')) ''name'' =
                       Some (JStr n) \<and> n \<noteq> []) \<and>
        (\<exists>e. (example_signup_body(''password'' \<mapsto> JStr ''12345'')) ''email'' =
                       Some (JStr e) \<and> e \<noteq> []) \<and>
        (\<exists>pw. (example_signup_body(''password'' \<mapsto> JStr ''12345'')) ''password'' =
                       Some (JStr pw) \<and> 6 \<le> length pw))"
    by simp
  have r2: "status (fst (respond (auth_post_user example_env empty_store
      (example_signup_body(''password'' \<mapsto> JStr ''12345''))))) = 400 \<and>
      snd (respond (auth_post_user example_env empty_store
      (example_signup_body(''password'' \<mapsto> JStr ''12345'')))) = empty_store"
    using signup_contract[of "example_signup_body(''password'' \<mapsto> JStr ''12345'')"
        example_env empty_store] short by blast
  have b3: "(example_signup_body(''email'' \<mapsto> JStr ''ALICE@example.com'')) ''name'' =
        Some (JStr ''Bob '') \<and> ''Bob '' \<noteq> [] \<and>
      (example_signup_body(''email'' \<mapsto> JStr ''ALICE@example.com'')) ''email'' =
        Some (JStr ''ALICE@example.com'') \<and> ''ALICE@example.com'' \<noteq> [] \<and>
      (example_signup_body(''email'' \<mapsto> JStr ''ALICE@example.com'')) ''password'' =
        Some (JStr ''secret1'') \<and> 6 \<le> length ''secret1''"
    by (simp add: example_signup_body_def)
  have taken: "\<exists>u \<in> set (users example_auth_store).
                  u_email u = toLowerCase (trim ''ALICE@example.com'')"
    unfolding n2 by (simp add: example_auth_store_def)
  have r3: "respond (auth_post_user example_env example_auth_store
      (example_signup_body(''email'' \<mapsto> JStr ''ALICE@example.com''))) =
     (message 400 ''User with this email already exists'', example_auth_store)"
    using signup_contract[of "example_signup_body(''email'' \<mapsto> JStr ''ALICE@example.com'')"
        example_env example_auth_store] b3 taken by blast
  have e: "new_auth_user empty_store ''Bob '' '' Bob@Example.COM ''
             (bcrypt_hash example_env ''secret1'' 10) =
           \<lparr>u_id = 1, u_name = ''Bob'', u_defaultCurrencyId = None,
            u_email = ''bob@example.com'', u_passwordHash = ''$2b$10$secret1''\<rparr>"
    unfolding new_auth_user_def n1 n3 by (simp add: empty_store_def example_env_def)
  show ?thesis
    unfolding r1 r3 e using r2
    by (simp add: user_select_def json_int_def json_opt_int_def)
qed

section \<open>The password hash in answers\<close>

text \<open>
  The five routes that answer with a user select id, name, email and defaultCurrencyId
  (and \<open>defaultCurrency\<close>): no body they send, for any store and any input, has a member
  \<open>passwordHash\<close>.
\<close>

lemma no_hash_in_message: "body (message code m) = Some v \<Longrightarrow> \<not> has_field ''passwordHash'' v"
  by (auto simp add: message_def)

lemma no_hash_in_defaultCurrency: "\<not> has_field ''passwordHash'' (defaultCurrency st u)"
  by (simp add: defaultCurrency_def json_of_currency_def json_int_def split: option.splits)

lemma no_hash_in_user_select_include: "\<not> has_field ''passwordHash'' (user_select_include st u)"
  using no_hash_in_user_select[of u] no_hash_in_defaultCurrency[of st u]
  by (simp add: user_select_include_def)

lemma no_hash_in_array:
  "(\<And>x. x \<in> set xs \<Longrightarrow> \<not> has_field k (f x)) \<Longrightarrow> \<not> has_field k (JArr (map f xs))"
  by (induction xs) auto

lemma auth_post_user_no_hash:
  assumes "body (fst (respond (auth_post_user ev st b))) = Some v"
  shows "\<not> has_field ''passwordHash'' v"
proof -
  have "(\<exists>code m. fst (respond (auth_post_user ev st b)) = message code m) \<or>
        (\<exists>u. fst (respond (auth_post_user ev st b)) = reply 201 (JObj (user_select u)))"
    by (auto simp add: auth_post_user_def respond_def error_middleware_def
        user_findUnique_email_def user_create_auth_def Let_def split: option.splits)
  then show ?thesis
    using assms no_hash_in_message no_hash_in_user_select
    by (auto simp add: reply_def)
qed

lemma auth_login_no_hash:
  assumes "body (fst (respond (auth_login ev st b))) = Some v"
  shows "\<not> has_field ''passwordHash'' v"
proof -
  have "(\<exists>code m. fst (respond (auth_login ev st b)) = message code m) \<or>
        (\<exists>u t. fst (respond (auth_login ev st b)) =
           reply 200 (JObj [(''accessToken'', JStr t), (''user'', JObj (user_select u))]))"
    by (auto simp add: auth_login_def respond_def error_middleware_def
        user_findUnique_email_def Let_def split: option.splits)
  then show ?thesis
    using assms no_hash_in_message no_hash_in_user_select
    by (auto simp add: reply_def)
qed

lemma auth_get_user_no_hash:
  assumes "body (fst (respond (auth_get_user st p))) = Some v"
  shows "\<not> has_field ''passwordHash'' v"
proof -
  have "(\<exists>code m. fst (respond (auth_get_user st p)) = message code m) \<or>
        (\<exists>u. fst (respond (auth_get_user st p)) = reply 200 (user_select_include st u))"
    by (auto simp add: auth_get_user_def respond_def error_middleware_def
        user_findUnique_def Let_def split: option.splits sum.splits)
  then show ?thesis
    using assms no_hash_in_message no_hash_in_user_select_include
    by (auto simp add: reply_def)
qed

lemma auth_get_users_no_hash:
  assumes "body (fst (respond (auth_get_users st))) = Some v"
  shows "\<not> has_field ''passwordHash'' v"
  using assms no_hash_in_array[of "users st" "''passwordHash''" "user_select_include st"]
    no_hash_in_user_select_include
  by (auto simp add: auth_get_users_def respond_def error_middleware_def reply_def)

lemma auth_patch_user_currency_no_hash:
  assumes "body (fst (respond (auth_patch_user_currency st p b))) = Some v"
  shows "\<not> has_field ''passwordHash'' v"
proof -
  have "(\<exists>code m. fst (respond (auth_patch_user_currency st p b)) = message code m) \<or>
        (\<exists>s u. fst (respond (auth_patch_user_currency st p b)) =
           reply 200 (user_select_include s u))"
    by (auto simp add: auth_patch_user_currency_def respond_def error_middleware_def
        Let_def split: option.splits sum.splits)
  then show ?thesis
    using assms no_hash_in_message no_hash_in_user_select_include
    by (auto simp add: reply_def)
qed

text \<open>
  C10. The two routes that read records include the whole user row. On the example
  store, \<open>GET /record/1\<close> with a valid token is answered 200 with a body whose member
  \<open>user\<close> has the member \<open>passwordHash\<close>, and so is each element of the list that
  \<open>GET /record?userId=1\<close> answers.
\<close>

theorem record_read_includes_password_hash:
  "auth_router example_env example_auth_store
       (authorised_request GET [''record'', ''1''] Map.empty) =
     (reply 200
        (JObj [(''id'', JNum 1), (''userId'', JNum 1), (''categoryId'', JNum 1),
               (''currencyId'', JNum 1), (''amount'', JNum 50),
               (''createdAt'', JStr ''2025-12-10T09:00:00.000Z''),
               (''user'',
                JObj [(''id'', JNum 1), (''name'', JStr ''Alice''),
                      (''email'', JStr ''alice@example.com''),
                      (''passwordHash'', JStr ''$2b$10$digest''),
                      (''defaultCurrencyId'', JNum 1)]),
               (''category'', JObj [(''id'', JNum 1), (''name'', JStr ''Food'')]),
               (''currency'',
                JObj [(''id'', JNum 1), (''code'', JStr ''UAH''),
                      (''name'', JStr ''Hryvnia'')])]),
      example_auth_store) \<and>
   has_field ''passwordHash''
     (JObj [(''id'', JNum 1), (''userId'', JNum 1), (''categoryId'', JNum 1),
            (''currencyId'', JNum 1), (''amount'', JNum 50),
            (''createdAt'', JStr ''2025-12-10T09:00:00.000Z''),
            (''user'',
             JObj [(''id'', JNum 1), (''name'', JStr ''Alice''),
                   (''email'', JStr ''alice@example.com''),
                   (''passwordHash'', JStr ''$2b$10$digest''),
                   (''defaultCurrencyId'', JNum 1)]),
            (''category'', JObj [(''id'', JNum 1), (''name'', JStr ''Food'')]),
            (''currency'',
             JObj [(''id'', JNum 1), (''code'', JStr ''UAH''),
                   (''name'', JStr ''Hryvnia'')])]) \<and>
   body (fst (respond (auth_get_records example_auth_store [''userId'' \<mapsto> ''1'']))) =
     Some (JArr [JObj [(''id'', JNum 1), (''userId'', JNum 1), (''categoryId'', JNum 1),
               (''currencyId'', JNum 1), (''amount'', JNum 50),
               (''createdAt'', JStr ''2025-12-10T09:00:00.000Z''),
               (''user'',
                JObj [(''id'', JNum 1), (''name'', JStr ''Alice''),
                      (''email'', JStr ''alice@example.com''),
                      (''passwordHash'', JStr ''$2b$10$digest''),
                      (''defaultCurrencyId'', JNum 1)]),
               (''category'', JObj [(''id'', JNum 1), (''name'', JStr ''Food'')]),
               (''currency'',
                JObj [(''id'', JNum 1), (''code'', JStr ''UAH''),
                      (''name'', JStr ''Hryvnia'')])]])"
  by code_simp

end
